theory Spec2Isabelle
  imports Main "HOL-Library.Char_ord" "HOL-Library.List_Lexorder" "HOL-Library.Multiset"
begin

section \<open>Data model\<close>

text \<open>
  The player keeps every instant as a JavaScript \<open>Date\<close>: a whole number of
  milliseconds since the epoch, or the Invalid Date whose time value is NaN. Every
  relational operator on two dates compares the time values, and a comparison with NaN
  is false. Time values are unbounded integers here; the limit of the \<open>Date\<close> range
  (8.64e15 ms either side of the epoch) is not modelled.

  A \<open>char\<close> stands for one code unit of a source string, so the strings of the model
  are those whose code units are below 256. Numbers that the source keeps as \<open>number\<close>
  and that are whole (times in milliseconds, indexes, the lookback in hours) are \<open>int\<close>
  or \<open>nat\<close>.
\<close>

datatype Date = InvalidDate | Date int

fun getTime :: "Date \<Rightarrow> int option" where
  "getTime InvalidDate = None"
| "getTime (Date t) = Some t"

fun date_lt :: "Date \<Rightarrow> Date \<Rightarrow> bool" where
  "date_lt (Date a) (Date b) = (a < b)"
| "date_lt _ _ = False"

fun date_le :: "Date \<Rightarrow> Date \<Rightarrow> bool" where
  "date_le (Date a) (Date b) = (a \<le> b)"
| "date_le _ _ = False"

text \<open>\<open>a > b\<close> and \<open>a >= b\<close> of the source are \<open>b < a\<close> and \<open>b <= a\<close>.\<close>

abbreviation date_gt :: "Date \<Rightarrow> Date \<Rightarrow> bool" where
  "date_gt a b \<equiv> date_lt b a"

abbreviation date_ge :: "Date \<Rightarrow> Date \<Rightarrow> bool" where
  "date_ge a b \<equiv> date_le b a"

text \<open>
  \<open>EPGProgram\<close> of \<open>types/player\<close>, as \<open>parseEPG\<close> and
  \<open>generateFallbackPrograms\<close> build it. The fields \<open>id\<close> and \<open>end\<close> are
  \<open>progId\<close> and \<open>end'\<close> here.
\<close>

record EPGProgram =
  progId :: string
  title :: string
  start :: Date
  end' :: Date

text \<open>An instant \<open>t\<close> lies in the half-open interval of an entry.\<close>

definition covers :: "EPGProgram \<Rightarrow> int \<Rightarrow> bool" where
  "covers p t = (date_le (start p) (Date t) \<and> date_gt (end' p) (Date t))"

subsection \<open>Numbers in template strings\<close>

text \<open>The decimal digits of a whole number; \<open>natToString\<close> is for one that is not negative.\<close>

definition digitChar :: "nat \<Rightarrow> char" where
  "digitChar d = ''0123456789'' ! d"

function natToString :: "int \<Rightarrow> string" where
  "natToString n =
     (if n < 10 then [digitChar (nat n)]
      else natToString (n div 10) @ [digitChar (nat (n mod 10))])"
  by pat_completeness auto
termination
  by (relation "measure nat") auto

declare natToString.simps [simp del]

definition intToString :: "int \<Rightarrow> string" where
  "intToString i = (if i < 0 then CHR ''-'' # natToString (- i) else natToString i)"

section \<open>Gap-fill synthesizer: \<open>generateFallbackPrograms\<close> (lib/epg-parser.ts)\<close>

definition TWO_HOURS_MS :: int where
  "TWO_HOURS_MS = 2 * 60 * 60 * 1000"

text \<open>
  The placeholder title of a synthetic block. Its four code units are above 255; it is
  kept as the twelve bytes of its UTF-8 encoding, and no statement depends on it.
\<close>

definition fallbackTitle :: string where
  "fallbackTitle = map char_of
     [0xE7, 0xB2, 0xBE, 0xE5, 0xBD, 0xA9, 0xE8, 0x8A, 0x82, 0xE7, 0x9B, 0xAE :: nat]"

text \<open>The predicate of \<open>existingPrograms.some\<close>: the three clauses, in the source's order.\<close>

definition hasOverlap :: "EPGProgram list \<Rightarrow> int \<Rightarrow> int \<Rightarrow> bool" where
  "hasOverlap existingPrograms currentStart currentEnd =
     list_ex (\<lambda>p.
        (date_le (start p) (Date currentStart) \<and> date_gt (end' p) (Date currentStart)) \<or>
        (date_lt (start p) (Date currentEnd) \<and> date_ge (end' p) (Date currentEnd)) \<or>
        (date_ge (start p) (Date currentStart) \<and> date_le (end' p) (Date currentEnd)))
      existingPrograms"

definition fallbackBlock :: "string \<Rightarrow> int \<Rightarrow> int \<Rightarrow> EPGProgram" where
  "fallbackBlock channelId currentStart currentEnd =
     \<lparr> progId = ''fallback-'' @ channelId @ ''-'' @ intToString currentStart,
       title = fallbackTitle,
       start = Date currentStart,
       end' = Date currentEnd \<rparr>"

text \<open>
  The \<open>while (currentStart < now)\<close> loop. \<open>now\<close> is the clock reading taken once at the
  top of the function; the accumulator is the array \<open>fallbackPrograms\<close>.
\<close>

function fallbackLoop ::
  "EPGProgram list \<Rightarrow> string \<Rightarrow> int \<Rightarrow> int \<Rightarrow> EPGProgram list \<Rightarrow> EPGProgram list" where
  "fallbackLoop existingPrograms channelId now currentStart fallbackPrograms =
     (if currentStart < now then
        (let currentEnd = currentStart + TWO_HOURS_MS in
         fallbackLoop existingPrograms channelId now currentEnd
           (if \<not> hasOverlap existingPrograms currentStart currentEnd
            then fallbackPrograms @ [fallbackBlock channelId currentStart currentEnd]
            else fallbackPrograms))
      else fallbackPrograms)"
  by pat_completeness auto
termination
  by (relation "measure (\<lambda>(e, c, now, currentStart, f). nat (now - currentStart))")
     (auto simp: TWO_HOURS_MS_def)

declare fallbackLoop.simps [simp del]

definition generateFallbackPrograms ::
  "int \<Rightarrow> EPGProgram list \<Rightarrow> string \<Rightarrow> int \<Rightarrow> EPGProgram list" where
  "generateFallbackPrograms now existingPrograms channelId lookbackHours =
     (let startTime = now - lookbackHours * 60 * 60 * 1000;
          hoursSinceEpoch = startTime div (60 * 60 * 1000);
          roundedHours = (hoursSinceEpoch div 2) * 2;
          currentStart = roundedHours * 60 * 60 * 1000
      in fallbackLoop existingPrograms channelId now currentStart [])"

text \<open>
  The caller's merge (App.tsx): the real entries followed by the synthetic ones, sorted
  with the comparator \<open>a.start.getTime() - b.start.getTime()\<close>.

  When every start is a valid date the comparator is consistent, and
  \<open>Array.prototype.sort\<close> is then a stable sort: the result is fixed, and it is the one
  of the stable insertion sort below. When a start is the Invalid Date the comparator
  returns NaN; it is then not consistent and ECMAScript leaves the order to the engine.
  \<open>engineOrder\<close> stands for what the engine does in that case. It is not computed here:
  all that is taken of it is that it permutes the array, and that sorting its result
  again changes nothing.
\<close>

definition validStarts :: "EPGProgram list \<Rightarrow> bool" where
  "validStarts ps = list_all (\<lambda>p. start p \<noteq> InvalidDate) ps"

definition cmpStartPositive :: "EPGProgram \<Rightarrow> EPGProgram \<Rightarrow> bool" where
  "cmpStartPositive a b = date_gt (start a) (start b)"

fun insertByStart :: "EPGProgram \<Rightarrow> EPGProgram list \<Rightarrow> EPGProgram list" where
  "insertByStart x [] = [x]"
| "insertByStart x (y # ys) =
     (if cmpStartPositive x y then y # insertByStart x ys else x # y # ys)"

definition stableSortByStart :: "EPGProgram list \<Rightarrow> EPGProgram list" where
  "stableSortByStart ps = foldr insertByStart ps []"

definition engineOrder :: "EPGProgram list \<Rightarrow> EPGProgram list" where
  "engineOrder =
     (SOME f. (\<forall>ps. mset (f ps) = mset ps) \<and> (\<forall>ps. f (f ps) = f ps))"

definition sortByStart :: "EPGProgram list \<Rightarrow> EPGProgram list" where
  "sortByStart ps = (if validStarts ps then stableSortByStart ps else engineOrder ps)"

definition withFallback :: "int \<Rightarrow> EPGProgram list \<Rightarrow> string \<Rightarrow> int \<Rightarrow> EPGProgram list" where
  "withFallback now programs channelId lookbackHours =
     sortByStart (programs @ generateFallbackPrograms now programs channelId lookbackHours)"

section \<open>The App component (first part of App.tsx)\<close>

text \<open>
  \<open>Channel\<close> of \<open>types/player\<close>, as \<open>parseM3U\<close> builds it; the field \<open>id\<close> is
  \<open>chId\<close> here. An optional field is \<open>None\<close> when it is \<open>undefined\<close>.
\<close>

record Channel =
  chId :: string
  name :: string
  group :: string
  url :: string
  logo :: "string option"
  tvgId :: "string option"
  tvgName :: "string option"
  catchup :: "string option"
  catchupSource :: "string option"

datatype PlayMode = Live | Catchup

text \<open>The fields of \<open>PlayerState\<close> that the update effect depends on.\<close>

record PlayerState =
  currentChannel :: "Channel option"
  playMode :: PlayMode
  currentTime :: Date

datatype error = TypeError

text \<open>
  \<open>EPGData\<close> is a plain object used as a dictionary. A key that is not an own
  property is still found on \<open>Object.prototype\<close> when it is one of the names below, and
  what is found there is neither falsy nor an array.
\<close>

type_synonym EPGData = "string \<rightharpoonup> EPGProgram list"

definition objectPrototypeKeys :: "string list" where
  "objectPrototypeKeys =
     [''constructor'', ''__proto__'', ''hasOwnProperty'', ''isPrototypeOf'',
      ''propertyIsEnumerable'', ''toLocaleString'', ''toString'', ''valueOf'',
      ''__defineGetter__'', ''__defineSetter__'', ''__lookupGetter__'', ''__lookupSetter__'']"

text \<open>
  The lookup of lines 75-77:
  \<open>allPrograms.find(p => p.start <= now && p.end > now) || null\<close>.
\<close>

definition findCurrentProgram :: "EPGProgram list \<Rightarrow> Date \<Rightarrow> EPGProgram option" where
  "findCurrentProgram allPrograms now =
     find (\<lambda>p. date_le (start p) now \<and> date_gt (end' p) now) allPrograms"

text \<open>
  The effect of lines 55-80, which sets \<open>currentPlayingProgram\<close>. \<open>now\<close> is the clock
  reading of line 60 and \<open>genNow\<close> the one \<open>generateFallbackPrograms\<close> takes itself.
  The result is \<open>Inr None\<close> when the effect returns without setting anything, and
  \<open>Inl TypeError\<close> when spreading \<open>programs\<close> throws.
\<close>

definition updateCurrentProgram ::
  "int \<Rightarrow> int \<Rightarrow> PlayerState \<Rightarrow> EPGData option \<Rightarrow> error + EPGProgram option option" where
  "updateCurrentProgram now genNow playerState epgData =
     (case (currentChannel playerState, epgData) of
        (Some channel, Some epg) \<Rightarrow>
          (let channelId = chId channel in
           case epg channelId of
             None \<Rightarrow>
               if channelId \<in> set objectPrototypeKeys then Inl TypeError
               else Inr (Some (findCurrentProgram
                      (withFallback genNow [] channelId 48) (Date now)))
           | Some programs \<Rightarrow>
               Inr (Some (findCurrentProgram
                      (withFallback genNow programs channelId 48) (Date now))))
      | _ \<Rightarrow> Inr None)"

section \<open>The player page (second part of App.tsx)\<close>

subsection \<open>Playback effect, lines 295-318\<close>

record MediaSegment =
  segUrl :: string
  duration :: int

record PlaybackState =
  playbackSegments :: "MediaSegment list"
  pagePlayMode :: PlayMode
  pageError :: "string option"

text \<open>A string or \<open>undefined\<close> in a condition.\<close>

definition truthy :: "string option \<Rightarrow> bool" where
  "truthy v = (case v of None \<Rightarrow> False | Some s \<Rightarrow> s \<noteq> [])"

text \<open>\<open>d.getTime() > x\<close>, false for the Invalid Date.\<close>

definition timeAfter :: "Date \<Rightarrow> int \<Rightarrow> bool" where
  "timeAfter d x = (case getTime d of None \<Rightarrow> False | Some t \<Rightarrow> x < t)"

text \<open>
  The effect calls \<open>buildCatchupSegments\<close>, which is imported from \<open>lib/m3u-parser\<close>; it
  is a parameter here, free to throw (\<open>Inl\<close>). The effect returns the page state it leaves
  behind, or what the builder threw.
\<close>

definition playbackEffect ::
  "(Channel \<Rightarrow> Date \<Rightarrow> int \<Rightarrow> 'e + MediaSegment list) \<Rightarrow>
   int \<Rightarrow> Channel option \<Rightarrow> Date \<Rightarrow> int \<Rightarrow> PlaybackState \<Rightarrow> 'e + PlaybackState" where
  "playbackEffect buildCatchupSegments now curChannel streamStartTime catchupTailOffset st =
     (case curChannel of
        None \<Rightarrow> Inr st
      | Some ch \<Rightarrow>
          if timeAfter streamStartTime (now - 3000) then
            Inr (st\<lparr>playbackSegments := [\<lparr>segUrl = url ch, duration = 0\<rparr>],
                    pagePlayMode := Live\<rparr>)
          else if \<not> truthy (catchup ch) \<or> \<not> truthy (catchupSource ch) then
            Inr st
          else
            (case buildCatchupSegments ch streamStartTime catchupTailOffset of
               Inl e \<Rightarrow> Inl e
             | Inr segments \<Rightarrow>
                 Inr (st\<lparr>playbackSegments := segments, pagePlayMode := Catchup\<rparr>)))"

subsection \<open>The segment builder\<close>

datatype buildError = PolicyViolation

text \<open>
  A segment descriptor as the catchup-source template yields it, with the effective start
  and end of the time it asks for, in milliseconds.
\<close>

record TimedSegment =
  descriptor :: MediaSegment
  effectiveStart :: int
  effectiveEnd :: int

text \<open>
  Modelled from the spec: \<open>buildCatchupSegments\<close>, which \<open>App.tsx\<close> imports from
  \<open>lib/m3u-parser\<close> and which that file does not define. After sections 4.5 and 7 of the
  specification: a build call on a channel lacking catchup capability (no catchup mode
  or no catchup-source template) is a policy violation and signals an error; a requested
  start within the recency threshold of the current instant collapses to a single live
  segment of duration 0; otherwise the template is instantiated with the requested start
  and an end boundary \<open>tailOffsetSeconds\<close> before the current instant, and a resulting
  segment whose effective start is after its effective end is a policy violation too.
  The template syntax is left to the deployment and the threshold is a few seconds:
  \<open>instantiate\<close> and \<open>recencyMs\<close> are parameters, and \<open>now\<close> is the current instant.
\<close>

definition buildCatchupSegments ::
  "(string \<Rightarrow> Date \<Rightarrow> int \<Rightarrow> TimedSegment list) \<Rightarrow> int \<Rightarrow> int \<Rightarrow>
   Channel \<Rightarrow> Date \<Rightarrow> int \<Rightarrow> buildError + MediaSegment list" where
  "buildCatchupSegments instantiate recencyMs now channel requestedStart tailOffsetSeconds =
     (case (catchup channel, catchupSource channel) of
        (Some mode, Some template) \<Rightarrow>
          if timeAfter requestedStart (now - recencyMs) then
            Inr [\<lparr>segUrl = url channel, duration = 0\<rparr>]
          else
            (let segments =
               instantiate template requestedStart (now - tailOffsetSeconds * 1000)
             in if list_ex (\<lambda>s. effectiveEnd s < effectiveStart s) segments
                then Inl PolicyViolation
                else Inr (map descriptor segments))
      | _ \<Rightarrow> Inl PolicyViolation)"

subsection \<open>Seeking, lines 320-334\<close>

text \<open>The new \<open>streamStartTime\<close> that \<open>handleVideoSeek\<close> sets.\<close>

definition handleVideoSeek :: "int \<Rightarrow> Date \<Rightarrow> Date \<Rightarrow> Date" where
  "handleVideoSeek now streamStartTime seekTime =
     (if timeAfter seekTime (now - 30 * 1000) then
        (if date_lt streamStartTime seekTime then Date now
         else Date (now - 30 * 1000))
      else seekTime)"

subsection \<open>Channel navigation, lines 336-373\<close>

text \<open>
  The page compares channels with \<open>===\<close>, the identity of the objects. The type \<open>'ch\<close>
  is the type of channel objects, and its equality is that identity. The state variables
  \<open>currentChannel\<close> and \<open>streamStartTime\<close> of the page are the fields \<open>pageChannel\<close>
  and \<open>pageStreamStart\<close>; as a parameter, the former is \<open>curChannel\<close>.
\<close>

record 'ch Selection =
  pageChannel :: "'ch option"
  pageStreamStart :: Date

datatype NavTarget = Prev | Next | Index int

text \<open>\<open>selectChannel\<close>; its argument is \<open>None\<close> for \<open>undefined\<close>.\<close>

definition selectChannel :: "int \<Rightarrow> 'ch option \<Rightarrow> 'ch Selection \<Rightarrow> 'ch Selection" where
  "selectChannel now channel sel =
     sel\<lparr>pageChannel := channel, pageStreamStart := Date now\<rparr>"

text \<open>\<open>xs[i]\<close> of an array: \<open>undefined\<close> outside the array.\<close>

definition elemAt :: "'a list \<Rightarrow> int \<Rightarrow> 'a option" where
  "elemAt xs i = (if 0 \<le> i \<and> i < int (length xs) then Some (xs ! nat i) else None)"

fun findIndexFrom :: "int \<Rightarrow> ('a \<Rightarrow> bool) \<Rightarrow> 'a list \<Rightarrow> int" where
  "findIndexFrom i P [] = - 1"
| "findIndexFrom i P (x # xs) = (if P x then i else findIndexFrom (i + 1) P xs)"

definition findIndex :: "('a \<Rightarrow> bool) \<Rightarrow> 'a list \<Rightarrow> int" where
  "findIndex P xs = findIndexFrom 0 P xs"

text \<open>\<open>metadata\<close> is \<open>None\<close> for \<open>null\<close>, and otherwise the array \<open>metadata.channels\<close>.\<close>

definition handleChannelNavigate ::
  "int \<Rightarrow> 'ch list option \<Rightarrow> NavTarget \<Rightarrow> 'ch Selection \<Rightarrow> 'ch Selection" where
  "handleChannelNavigate now metadata target sel =
     (case metadata of
        None \<Rightarrow> sel
      | Some channels \<Rightarrow>
          if length channels = 0 then sel
          else
            (case target of
               Index n \<Rightarrow>
                 (case elemAt channels (n - 1) of
                    Some channel \<Rightarrow> selectChannel now (Some channel) sel
                  | None \<Rightarrow> sel)
             | _ \<Rightarrow>
                 (case pageChannel sel of
                    None \<Rightarrow> sel
                  | Some cur \<Rightarrow>
                      (let currentIndex = findIndex (\<lambda>ch. ch = cur) channels;
                           nextIndex =
                             (if target = Prev then
                                (if currentIndex > 0 then currentIndex - 1
                                 else int (length channels) - 1)
                              else
                                (if currentIndex < int (length channels) - 1 then currentIndex + 1
                                 else 0))
                       in selectChannel now (elemAt channels nextIndex) sel))))"

section \<open>Channel-EPG resolver\<close>

text \<open>
  Modelled from the spec: \<open>getEPGChannelId\<close> (the spec's \<open>resolveEpgKey\<close>) is imported
  by the player page from \<open>lib/epg-parser\<close>, which does not define it. Section 4.3 of
  the spec: try the channel's source identifier first, then its source display name, then
  its playlist display title; return the first of these three that exists as a key in
  the index, or none if none match.
\<close>

definition getEPGChannelId :: "Channel \<Rightarrow> EPGData \<Rightarrow> string option" where
  "getEPGChannelId channel epgData =
     (case tvgId channel of
        Some i \<Rightarrow> if epgData i \<noteq> None then Some i else
          (case tvgName channel of
             Some n \<Rightarrow> if epgData n \<noteq> None then Some n else
               (if epgData (name channel) \<noteq> None then Some (name channel) else None)
           | None \<Rightarrow> if epgData (name channel) \<noteq> None then Some (name channel) else None)
      | None \<Rightarrow>
          (case tvgName channel of
             Some n \<Rightarrow> if epgData n \<noteq> None then Some n else
               (if epgData (name channel) \<noteq> None then Some (name channel) else None)
           | None \<Rightarrow> if epgData (name channel) \<noteq> None then Some (name channel) else None))"

section \<open>Strings\<close>

text \<open>
  White space as \<open>String.prototype.trim\<close> and the class \<open>\s\<close> of a regular expression
  take it, among the code units below 256: tab, line feed, vertical tab, form feed,
  carriage return, space and the no-break space.
\<close>

definition isSpace :: "char \<Rightarrow> bool" where
  "isSpace c = (c \<in> set [CHR 0x09, CHR 0x0A, CHR 0x0B, CHR 0x0C, CHR 0x0D, CHR 0x20, CHR 0xA0])"

definition isDigit :: "char \<Rightarrow> bool" where
  "isDigit c = (c \<in> set ''0123456789'')"

definition trim :: "string \<Rightarrow> string" where
  "trim s = rev (dropWhile isSpace (rev (dropWhile isSpace s)))"

definition startsWith :: "string \<Rightarrow> string \<Rightarrow> bool" where
  "startsWith s p = (take (length p) s = p)"

text \<open>\<open>s.substring(a, b)\<close> for constants \<open>a \<le> b\<close>.\<close>

definition substring :: "string \<Rightarrow> nat \<Rightarrow> nat \<Rightarrow> string" where
  "substring s a b = take (b - a) (drop a s)"

text \<open>
  \<open>s.match(/key="([^"]+)"/)\<close>: the first capture group of the leftmost match, or
  \<open>None\<close> when the expression matches nowhere. At one position the match needs the
  text \<open>key="\<close>, then one or more code units other than the quote, then a quote.
\<close>

definition attrAt :: "string \<Rightarrow> string \<Rightarrow> string option" where
  "attrAt key s =
     (if startsWith s (key @ ''=\"'') then
        (let rest = drop (length key + 2) s;
             v = takeWhile (\<lambda>c. c \<noteq> CHR ''\"'') rest;
             after = dropWhile (\<lambda>c. c \<noteq> CHR ''\"'') rest
         in if v \<noteq> [] \<and> after \<noteq> [] then Some v else None)
      else None)"

fun matchAttr :: "string \<Rightarrow> string \<Rightarrow> string option" where
  "matchAttr key [] = attrAt key []"
| "matchAttr key (c # cs) =
     (case attrAt key (c # cs) of Some v \<Rightarrow> Some v | None \<Rightarrow> matchAttr key cs)"

section \<open>EPG parser: \<open>parseEPG\<close> (lib/epg-parser.ts)\<close>

subsection \<open>\<open>parseInt\<close> and the \<open>Date\<close> constructor\<close>

text \<open>
  \<open>parseInt(s)\<close> with no radix: leading white space is skipped, a sign is read, a
  prefix \<open>0x\<close> or \<open>0X\<close> selects base 16, and the longest run of digits of the base is the
  value; \<open>None\<close> is NaN, the result when there is no digit.
\<close>

definition digitValue :: "char \<Rightarrow> nat option" where
  "digitValue c =
     (if c \<in> set ''0123456789'' then Some (of_char c - 48)
      else if c \<in> set ''abcdef'' then Some (of_char c - 87)
      else if c \<in> set ''ABCDEF'' then Some (of_char c - 55)
      else None)"

definition isRadixDigit :: "nat \<Rightarrow> char \<Rightarrow> bool" where
  "isRadixDigit r c = (case digitValue c of None \<Rightarrow> False | Some d \<Rightarrow> d < r)"

definition digitsValue :: "nat \<Rightarrow> string \<Rightarrow> nat" where
  "digitsValue r ds = foldl (\<lambda>acc c. acc * r + the (digitValue c)) 0 ds"

definition parseDigits :: "nat \<Rightarrow> string \<Rightarrow> int option" where
  "parseDigits r s =
     (let ds = takeWhile (isRadixDigit r) s
      in if ds = [] then None else Some (int (digitsValue r ds)))"

definition parseInt :: "string \<Rightarrow> int option" where
  "parseInt str =
     (let s = dropWhile isSpace str;
          negative = startsWith s ''-'';
          s1 = (if startsWith s ''-'' \<or> startsWith s ''+'' then drop 1 s else s);
          hex = (startsWith s1 ''0x'' \<or> startsWith s1 ''0X'');
          magnitude = (if hex then parseDigits 16 (drop 2 s1) else parseDigits 10 s1)
      in map_option (\<lambda>m. if negative then - m else m) magnitude)"

text \<open>
  \<open>new Date(year, month, day, hour, minute, second)\<close>: the fields are taken as local
  time, a field out of its range carries over, a year from 0 to 99 counts from 1900, and
  a NaN field gives the Invalid Date. \<open>daysFromCivil y m\<close> is the day number of the first
  day of month \<open>m\<close> (0 to 11) of year \<open>y\<close>.

  The host's time zone decides which instant a local time is. It is the parameter
  \<open>localToUtc\<close>, from a local time value to the time value of the instant, both in
  milliseconds; it need not be monotonic (daylight saving).
\<close>

definition daysFromCivil :: "int \<Rightarrow> int \<Rightarrow> int" where
  "daysFromCivil y m =
     (let y' = (if m < 2 then y - 1 else y);
          era = y' div 400;
          yoe = y' - era * 400;
          mp = (m + 10) mod 12;
          doy = (153 * mp + 2) div 5;
          doe = yoe * 365 + yoe div 4 - yoe div 100 + doy
      in era * 146097 + doe - 719468)"

definition MakeDay :: "int \<Rightarrow> int \<Rightarrow> int \<Rightarrow> int" where
  "MakeDay year month date = daysFromCivil (year + month div 12) (month mod 12) + date - 1"

definition MakeTime :: "int \<Rightarrow> int \<Rightarrow> int \<Rightarrow> int" where
  "MakeTime hour minute second = hour * 3600000 + minute * 60000 + second * 1000"

definition newDateLocal ::
  "(int \<Rightarrow> int) \<Rightarrow> int option \<Rightarrow> int option \<Rightarrow> int option \<Rightarrow> int option \<Rightarrow> int option \<Rightarrow>
   int option \<Rightarrow> Date" where
  "newDateLocal localToUtc year month day hour minute second =
     (case (year, month, day, hour, minute, second) of
        (Some y, Some mo, Some d, Some h, Some mi, Some s) \<Rightarrow>
          (let yr = (if 0 \<le> y \<and> y \<le> 99 then 1900 + y else y)
           in Date (localToUtc (MakeDay yr mo d * 86400000 + MakeTime h mi s)))
      | _ \<Rightarrow> InvalidDate)"

text \<open>
  Two hosts: one whose local time is UTC, and one in New York for local times between
  November 2023 and November 2024. There the clocks go from 02:00 to 03:00 on 10 March
  2024: a local time before 03:00 of that day is five hours behind UTC (a time in the
  missing hour included, which takes the offset in force before the change), and a
  later one four hours.
\<close>

definition utcZone :: "int \<Rightarrow> int" where
  "utcZone t = t"

definition newYorkZone :: "int \<Rightarrow> int" where
  "newYorkZone t = (if t < 1710039600000 then t + 18000000 else t + 14400000)"

subsection \<open>\<open>parseTime\<close>, lines 23-36\<close>

text \<open>
  \<open>timeStr.replace(/\s+[+-]\d{4}$/, "")\<close>: when the string ends with white space, a sign
  and four digits, these are removed together with the whole run of white space.
\<close>

definition stripOffset :: "string \<Rightarrow> string" where
  "stripOffset timeStr =
     (case rev timeStr of
        d4 # d3 # d2 # d1 # sg # w # rest \<Rightarrow>
          if isDigit d4 \<and> isDigit d3 \<and> isDigit d2 \<and> isDigit d1 \<and>
             (sg = CHR ''+'' \<or> sg = CHR ''-'') \<and> isSpace w
          then rev (dropWhile isSpace rest)
          else timeStr
      | _ \<Rightarrow> timeStr)"

text \<open>\<open>clock\<close> is the reading \<open>new Date()\<close> gives when the attribute is empty.\<close>

definition parseTime :: "(int \<Rightarrow> int) \<Rightarrow> int \<Rightarrow> string \<Rightarrow> Date" where
  "parseTime localToUtc clock timeStr =
     (if timeStr = [] then Date clock
      else
        (let cleanStr = stripOffset timeStr;
             year = parseInt (substring cleanStr 0 4);
             month = map_option (\<lambda>m. m - 1) (parseInt (substring cleanStr 4 6));
             day = parseInt (substring cleanStr 6 8);
             hour = parseInt (substring cleanStr 8 10);
             minute = parseInt (substring cleanStr 10 12);
             second = (case parseInt (substring cleanStr 12 14) of None \<Rightarrow> Some 0 | Some x \<Rightarrow> Some x)
         in newDateLocal localToUtc year month day hour minute second))"

subsection \<open>\<open>parseEPG\<close>, lines 10-61\<close>

text \<open>
  The document is given as the list of its \<open>programme\<close> elements in document order,
  which is what \<open>querySelectorAll\<close> returns. An attribute is \<open>None\<close> when the element
  does not have it, and \<open>titleText\<close> is \<open>None\<close> when the element has no \<open>title\<close> child.
\<close>

record Programme =
  channelAttr :: "string option"
  startAttr :: "string option"
  stopAttr :: "string option"
  titleText :: "string option"

text \<open>\<open>x || ""\<close> for a string or \<open>null\<close>.\<close>

definition orEmpty :: "string option \<Rightarrow> string" where
  "orEmpty v = (case v of None \<Rightarrow> [] | Some s \<Rightarrow> s)"

text \<open>
  The entry one element contributes. \<open>clockStart\<close> and \<open>clockStop\<close> are the clock
  readings that the two calls of \<open>parseTime\<close> take when their attribute is empty.
\<close>

definition programOf :: "(int \<Rightarrow> int) \<Rightarrow> int \<Rightarrow> int \<Rightarrow> Programme \<Rightarrow> EPGProgram" where
  "programOf localToUtc clockStart clockStop item =
     (let channelId = orEmpty (channelAttr item);
          start = parseTime localToUtc clockStart (orEmpty (startAttr item));
          end = parseTime localToUtc clockStop (orEmpty (stopAttr item));
          title = orEmpty (titleText item);
          id = channelId @ ''-'' @ (case getTime start of None \<Rightarrow> ''NaN'' | Some t \<Rightarrow> intToString t)
      in \<lparr>progId = id, title = title, start = start, end' = end\<rparr>)"

text \<open>
  One step of \<open>items.forEach\<close>. When \<open>channelId\<close> is not an own key but a name of
  \<open>Object.prototype\<close>, \<open>epgData[channelId]\<close> is not falsy and has no \<open>push\<close>: the call
  throws a \<open>TypeError\<close>.
\<close>

definition addProgramme ::
  "(int \<Rightarrow> int) \<Rightarrow> int \<Rightarrow> int \<Rightarrow> Programme \<Rightarrow> EPGData \<Rightarrow> error + EPGData" where
  "addProgramme localToUtc clockStart clockStop item epgData =
     (let channelId = orEmpty (channelAttr item);
          entry = programOf localToUtc clockStart clockStop item
      in case epgData channelId of
           Some programs \<Rightarrow> Inr (epgData(channelId \<mapsto> programs @ [entry]))
         | None \<Rightarrow>
             if channelId \<in> set objectPrototypeKeys then Inl TypeError
             else Inr (epgData(channelId \<mapsto> [entry])))"

text \<open>
  The loop over the elements. \<open>clock\<close> gives the clock reading of every call of
  \<open>parseTime\<close>: the calls for element \<open>i\<close> are the calls \<open>2 * i\<close> and \<open>2 * i + 1\<close>.
\<close>

fun parseItems ::
  "(int \<Rightarrow> int) \<Rightarrow> (nat \<Rightarrow> int) \<Rightarrow> nat \<Rightarrow> Programme list \<Rightarrow> EPGData \<Rightarrow>
   error + EPGData" where
  "parseItems localToUtc clock i [] epgData = Inr epgData"
| "parseItems localToUtc clock i (item # items) epgData =
     (case addProgramme localToUtc (clock (2 * i)) (clock (2 * i + 1)) item epgData of
        Inl e \<Rightarrow> Inl e
      | Inr epgData' \<Rightarrow> parseItems localToUtc clock (i + 1) items epgData')"

definition parseEPG ::
  "(int \<Rightarrow> int) \<Rightarrow> (nat \<Rightarrow> int) \<Rightarrow> Programme list \<Rightarrow> error + EPGData" where
  "parseEPG localToUtc clock items =
     (case parseItems localToUtc clock 0 items Map.empty of
        Inl e \<Rightarrow> Inl e
      | Inr epgData \<Rightarrow> Inr (\<lambda>channelId. map_option sortByStart (epgData channelId)))"

section \<open>Playlist parser: \<open>parseM3U\<close> (lib/m3u-parser.ts)\<close>

text \<open>
  \<open>m3uContent.split(/\r?\n/)\<close>. The first argument is the current line so far, in
  reverse; at a line feed, a carriage return just before it belongs to the separator.
\<close>

fun splitLinesFrom :: "string \<Rightarrow> string \<Rightarrow> string list" where
  "splitLinesFrom cur [] = [rev cur]"
| "splitLinesFrom cur (c # cs) =
     (if c = CHR 0x0A then
        rev (case cur of d # ds \<Rightarrow> if d = CHR 0x0D then ds else cur | [] \<Rightarrow> cur)
          # splitLinesFrom [] cs
      else splitLinesFrom (c # cur) cs)"

definition splitLines :: "string \<Rightarrow> string list" where
  "splitLines m3uContent = splitLinesFrom [] m3uContent"

text \<open>
  \<open>infLine.split(/,\s*/).pop()\<close>: the text after the last comma and the white space
  that follows it, or the whole line when it has no comma.
\<close>

definition lastPiece :: "string \<Rightarrow> string" where
  "lastPiece infLine =
     (if CHR '','' \<in> set infLine
      then dropWhile isSpace (rev (takeWhile (\<lambda>c. c \<noteq> CHR '','') (rev infLine)))
      else infLine)"

text \<open>\<open>currentMeta\<close>, a \<open>Partial<Channel>\<close>: the fields that the parser sets.\<close>

record PartialChannel =
  metaTvgId :: "string option"
  metaTvgName :: "string option"
  metaLogo :: "string option"
  metaGroup :: "string option"
  metaCatchup :: "string option"
  metaCatchupSource :: "string option"
  metaName :: "string option"

definition emptyMeta :: PartialChannel where
  "emptyMeta = \<lparr>metaTvgId = None, metaTvgName = None, metaLogo = None, metaGroup = None,
     metaCatchup = None, metaCatchupSource = None, metaName = None\<rparr>"

record M3UMetadata =
  tvgUrl :: "string option"
  channels :: "Channel list"
  groups :: "string list"

text \<open>
  The variables of the loop: \<open>tvgUrl\<close>, \<open>channels\<close>, the set \<open>groups\<close> as the list of
  its elements in insertion order, and \<open>currentMeta\<close>.
\<close>

record ParserState = M3UMetadata +
  currentMeta :: PartialChannel

definition setAdd :: "string \<Rightarrow> string list \<Rightarrow> string list" where
  "setAdd g gs = (if g \<in> set gs then gs else gs @ [g])"

text \<open>\<open>v || d\<close> for a string or \<open>undefined\<close>.\<close>

definition orElse :: "string option \<Rightarrow> string \<Rightarrow> string" where
  "orElse v d = (if truthy v then the v else d)"

text \<open>The metadata of an \<open>#EXTINF:\<close> line, lines 32-80.\<close>

definition parseExtinf :: "string \<Rightarrow> PartialChannel" where
  "parseExtinf infLine =
     \<lparr>metaTvgId = matchAttr ''tvg-id'' infLine,
      metaTvgName = matchAttr ''tvg-name'' infLine,
      metaLogo = matchAttr ''tvg-logo'' infLine,
      metaGroup = matchAttr ''group-title'' infLine,
      metaCatchup = matchAttr ''catchup'' infLine,
      metaCatchupSource = matchAttr ''catchup-source'' infLine,
      metaName = (let nameMatch = lastPiece infLine
                  in if nameMatch \<noteq> [] then Some (trim nameMatch) else None)\<rparr>"

text \<open>The object literal of lines 89-99; \<open>n\<close> is \<open>channels.length\<close>.\<close>

definition makeChannel :: "PartialChannel \<Rightarrow> string \<Rightarrow> nat \<Rightarrow> Channel" where
  "makeChannel meta trimmedLine n =
     \<lparr>chId = orElse (metaTvgId meta)
               (orElse (metaName meta) (''channel-'' @ intToString (int n))),
      name = orElse (metaName meta) (''Channel '' @ intToString (int n + 1)),
      group = orElse (metaGroup meta) ''Default'',
      url = trimmedLine,
      logo = metaLogo meta,
      tvgId = metaTvgId meta,
      tvgName = metaTvgName meta,
      catchup = metaCatchup meta,
      catchupSource = metaCatchupSource meta\<rparr>"

text \<open>The body of the loop over the lines.\<close>

definition parseLine :: "string \<Rightarrow> ParserState \<Rightarrow> ParserState" where
  "parseLine line st =
     (let trimmedLine = trim line in
      if trimmedLine = [] then st
      else if startsWith trimmedLine ''#EXTM3U'' then
        (case matchAttr ''tvg-url'' trimmedLine of
           Some u \<Rightarrow> st\<lparr>tvgUrl := Some u\<rparr>
         | None \<Rightarrow> st)
      else if startsWith trimmedLine ''#EXTINF:'' then
        (let meta = parseExtinf (drop 8 trimmedLine) in
         st\<lparr>currentMeta := meta,
            groups := (case metaGroup meta of
                         Some g \<Rightarrow> setAdd g (groups st)
                       | None \<Rightarrow> groups st)\<rparr>)
      else if startsWith trimmedLine ''#'' then st
      else if truthy (metaName (currentMeta st)) then
        st\<lparr>channels := channels st
                @ [makeChannel (currentMeta st) trimmedLine (length (channels st))],
           currentMeta := emptyMeta\<rparr>
      else st)"

definition initialState :: ParserState where
  "initialState = \<lparr>tvgUrl = None, channels = [], groups = [], currentMeta = emptyMeta\<rparr>"

text \<open>
  \<open>Array.from(groups).sort()\<close> orders strings by their code units, which is the order
  of \<open>string\<close> here.
\<close>

definition parseM3U :: "string \<Rightarrow> M3UMetadata" where
  "parseM3U m3uContent =
     (let st = fold parseLine (splitLines m3uContent) initialState
      in \<lparr>tvgUrl = tvgUrl st, channels = channels st, groups = sort (groups st)\<rparr>)"

section \<open>Observations used in the statements\<close>

text \<open>
  The entries that \<open>parseEPG\<close> produced for a channel key: none when it threw, or when
  the key is absent.
\<close>

definition entriesOf :: "error + EPGData \<Rightarrow> string \<Rightarrow> EPGProgram list" where
  "entriesOf r k =
     (case r of
        Inl e \<Rightarrow> []
      | Inr epgData \<Rightarrow> (case epgData k of None \<Rightarrow> [] | Some ps \<Rightarrow> ps))"

text \<open>
  The timestamps of the spec: fourteen digits \<open>YYYYMMDDHHMMSS\<close>, optionally followed by
  a time zone offset (white space, a sign and four digits). \<open>wallClockMs\<close> is the local
  wall-clock time that the fourteen digits spell, as a time value in milliseconds: the
  fields are the year, the month from 1 to 12, the day, the hour, the minute and the
  second, and the offset has no part in it.
\<close>

definition isOffsetSuffix :: "string \<Rightarrow> bool" where
  "isOffsetSuffix x =
     (case rev x of
        d4 # d3 # d2 # d1 # sg # w # rest \<Rightarrow>
          isDigit d4 \<and> isDigit d3 \<and> isDigit d2 \<and> isDigit d1 \<and>
          (sg = CHR ''+'' \<or> sg = CHR ''-'') \<and> isSpace w \<and> list_all isSpace rest
      | _ \<Rightarrow> False)"

definition isTimestamp :: "string \<Rightarrow> bool" where
  "isTimestamp t =
     (14 \<le> length t \<and> list_all isDigit (take 14 t) \<and>
      (drop 14 t = [] \<or> isOffsetSuffix (drop 14 t)))"

definition decimalValue :: "string \<Rightarrow> int" where
  "decimalValue ds = int (digitsValue 10 ds)"

definition yearOf :: "string \<Rightarrow> int" where
  "yearOf t = decimalValue (substring t 0 4)"

definition wallClockMs :: "string \<Rightarrow> int" where
  "wallClockMs t =
     MakeDay (yearOf t) (decimalValue (substring t 4 6) - 1) (decimalValue (substring t 6 8))
         * 86400000
       + MakeTime (decimalValue (substring t 8 10)) (decimalValue (substring t 10 12))
           (decimalValue (substring t 12 14))"

text \<open>
  The values of the \<open>group-title\<close> attribute in a playlist, in source order and with
  repetitions: what the expression \<open>group-title="([^"]+)"\<close> captures in each line that,
  once trimmed, starts with \<open>#EXTINF:\<close>.
\<close>

definition groupTitleValues :: "string \<Rightarrow> string list" where
  "groupTitleValues m3uContent =
     List.map_filter
       (\<lambda>line. if startsWith (trim line) ''#EXTINF:''
               then matchAttr ''group-title'' (drop 8 (trim line)) else None)
       (splitLines m3uContent)"

text \<open>The id of a channel is not empty, and is its \<open>tvgId\<close> or else its name.\<close>

definition idDerived :: "Channel \<Rightarrow> bool" where
  "idDerived c = (chId c \<noteq> [] \<and> chId c = (case tvgId c of Some t \<Rightarrow> t | None \<Rightarrow> name c))"

text \<open>A clock that stands still.\<close>

definition fixedClock :: "int \<Rightarrow> nat \<Rightarrow> int" where
  "fixedClock t n = t"

section \<open>Properties of the gap-fill synthesizer\<close>

lemma fallbackLoop_set:
  "set (fallbackLoop ex ch now cs acc) \<subseteq>
     set acc \<union> {fallbackBlock ch s (s + TWO_HOURS_MS) | s. \<not> hasOverlap ex s (s + TWO_HOURS_MS)}"
proof (induction ex ch now cs acc rule: fallbackLoop.induct)
  case (1 ex ch now cs acc)
  show ?case
  proof (cases "cs < now")
    case False
    then show ?thesis by (simp add: fallbackLoop.simps [of ex ch now cs acc])
  next
    case True
    from "1.IH" [OF True refl] True show ?thesis
      by (subst fallbackLoop.simps) (auto simp: Let_def split: if_splits)
  qed
qed

lemma no_overlap_disjoint:
  assumes "\<not> hasOverlap ex s e" and "p \<in> set ex" and "s < e"
  shows "\<not> (covers (fallbackBlock ch s e) t \<and> covers p t)"
proof
  assume c: "covers (fallbackBlock ch s e) t \<and> covers p t"
  then obtain a b where ab: "start p = Date a" "end' p = Date b"
    by (cases "start p"; cases "end' p") (auto simp: covers_def)
  from c ab have "s \<le> t" "t < e" "a \<le> t" "t < b"
    by (auto simp: covers_def fallbackBlock_def)
  moreover from assms(1,2) ab have
    "\<not> (a \<le> s \<and> s < b)" "\<not> (a < e \<and> e \<le> b)" "\<not> (s \<le> a \<and> b \<le> e)"
    by (auto simp: hasOverlap_def list_ex_iff)
  ultimately show False by linarith
qed

text \<open>
  C1. Gap-fill non-overlap: whatever the real entries, the channel id, the lookback and
  the clock reading, no instant lies both in the half-open interval of a synthetic entry
  that \<open>generateFallbackPrograms\<close> returns and in the half-open interval of a real
  entry of its input.
\<close>

theorem gapfill_non_overlap:
  "\<forall>s \<in> set (generateFallbackPrograms now existingPrograms channelId lookbackHours).
     \<forall>p \<in> set existingPrograms. \<not> (\<exists>t. covers s t \<and> covers p t)"
proof (intro ballI notI)
  fix s p
  assume s: "s \<in> set (generateFallbackPrograms now existingPrograms channelId lookbackHours)"
    and p: "p \<in> set existingPrograms"
    and "\<exists>t. covers s t \<and> covers p t"
  then obtain t where t: "covers s t \<and> covers p t" by blast
  from s fallbackLoop_set obtain b where
    b: "s = fallbackBlock channelId b (b + TWO_HOURS_MS)"
       "\<not> hasOverlap existingPrograms b (b + TWO_HOURS_MS)"
    unfolding generateFallbackPrograms_def Let_def by fastforce
  have "b < b + TWO_HOURS_MS" by (simp add: TWO_HOURS_MS_def)
  from no_overlap_disjoint [OF b(2) p this] t b(1) show False by blast
qed

theorem gapfill_non_overlap_witness:
  "generateFallbackPrograms 14400000
     [\<lparr>progId = ''c1-0'', title = ''News'', start = Date 0, end' = Date 7200000\<rparr>] ''c1'' 2
     = [fallbackBlock ''c1'' 7200000 14400000] \<and>
   \<not> (\<exists>t. covers (fallbackBlock ''c1'' 7200000 14400000) t \<and>
          covers \<lparr>progId = ''c1-0'', title = ''News'', start = Date 0, end' = Date 7200000\<rparr> t)"
proof -
  have run: "generateFallbackPrograms 14400000
     [\<lparr>progId = ''c1-0'', title = ''News'', start = Date 0, end' = Date 7200000\<rparr>] ''c1'' 2
     = [fallbackBlock ''c1'' 7200000 14400000]"
    by (simp add: generateFallbackPrograms_def fallbackLoop.simps hasOverlap_def TWO_HOURS_MS_def)
  from gapfill_non_overlap [of 14400000
     "[\<lparr>progId = ''c1-0'', title = ''News'', start = Date 0, end' = Date 7200000\<rparr>]" "''c1''" 2]
  show ?thesis by (simp add: run)
qed






lemma engineOrder_permutes: "mset (engineOrder ps) = mset ps"
proof -
  have "(\<forall>ps. mset (engineOrder ps) = mset ps) \<and>
        (\<forall>ps. engineOrder (engineOrder ps) = engineOrder ps)"
    unfolding engineOrder_def by (rule someI [where x = "\<lambda>ps. ps"]) simp
  then show ?thesis by blast
qed


lemma set_insertByStart: "set (insertByStart x xs) = insert x (set xs)"
  by (induction xs) auto

lemma set_stableSortByStart: "set (stableSortByStart xs) = set xs"
  by (induction xs) (simp_all add: stableSortByStart_def set_insertByStart)

lemma set_sortByStart: "set (sortByStart xs) = set xs"
  using engineOrder_permutes [of xs]
  by (auto simp: sortByStart_def set_stableSortByStart dest: mset_eq_setD)








text \<open>The loop one round at a time, for running it on concrete inputs.\<close>

lemma fallbackLoop_done: "\<not> cs < now \<Longrightarrow> fallbackLoop ex ch now cs acc = acc"
  by (simp add: fallbackLoop.simps [of ex ch now cs acc])

lemma fallbackLoop_skip:
  "cs < now \<Longrightarrow> hasOverlap ex cs (cs + 7200000) \<Longrightarrow>
   fallbackLoop ex ch now cs acc = fallbackLoop ex ch now (cs + 7200000) acc"
  by (subst fallbackLoop.simps) (simp add: Let_def TWO_HOURS_MS_def)

lemma fallbackLoop_emit:
  "cs < now \<Longrightarrow> \<not> hasOverlap ex cs (cs + 7200000) \<Longrightarrow>
   fallbackLoop ex ch now cs acc =
     fallbackLoop ex ch now (cs + 7200000) (acc @ [fallbackBlock ch cs (cs + 7200000)])"
  by (subst fallbackLoop.simps) (simp add: Let_def TWO_HOURS_MS_def)



section \<open>Properties of the current-program lookup\<close>

lemma start_fallbackBlock [simp]: "start (fallbackBlock ch s e) = Date s"
  by (simp add: fallbackBlock_def)

lemma end_fallbackBlock [simp]: "end' (fallbackBlock ch s e) = Date e"
  by (simp add: fallbackBlock_def)

text \<open>
  The guide of channel news1 on 1 January 2024 has two entries, 06:00 to 08:00 and 08:00
  to 10:00 (UTC). At 09:00 the synthesizer adds the 23 blocks from 08:00 on 30 December
  to 06:00 on 1 January.
\<close>

lemma generate_example:
  "generateFallbackPrograms 1704099600000
     [\<lparr>progId = ''news1-1704088800000'', title = ''Morning'', start = Date 1704088800000, end' = Date 1704096000000\<rparr>,
      \<lparr>progId = ''news1-1704096000000'', title = ''Midday'', start = Date 1704096000000, end' = Date 1704103200000\<rparr>]
     ''news1'' 48
   = [fallbackBlock ''news1'' 1703923200000 1703930400000,
      fallbackBlock ''news1'' 1703930400000 1703937600000,
      fallbackBlock ''news1'' 1703937600000 1703944800000,
      fallbackBlock ''news1'' 1703944800000 1703952000000,
      fallbackBlock ''news1'' 1703952000000 1703959200000,
      fallbackBlock ''news1'' 1703959200000 1703966400000,
      fallbackBlock ''news1'' 1703966400000 1703973600000,
      fallbackBlock ''news1'' 1703973600000 1703980800000,
      fallbackBlock ''news1'' 1703980800000 1703988000000,
      fallbackBlock ''news1'' 1703988000000 1703995200000,
      fallbackBlock ''news1'' 1703995200000 1704002400000,
      fallbackBlock ''news1'' 1704002400000 1704009600000,
      fallbackBlock ''news1'' 1704009600000 1704016800000,
      fallbackBlock ''news1'' 1704016800000 1704024000000,
      fallbackBlock ''news1'' 1704024000000 1704031200000,
      fallbackBlock ''news1'' 1704031200000 1704038400000,
      fallbackBlock ''news1'' 1704038400000 1704045600000,
      fallbackBlock ''news1'' 1704045600000 1704052800000,
      fallbackBlock ''news1'' 1704052800000 1704060000000,
      fallbackBlock ''news1'' 1704060000000 1704067200000,
      fallbackBlock ''news1'' 1704067200000 1704074400000,
      fallbackBlock ''news1'' 1704074400000 1704081600000,
      fallbackBlock ''news1'' 1704081600000 1704088800000]"
  by (simp add: generateFallbackPrograms_def fallbackLoop_done fallbackLoop_skip
      fallbackLoop_emit hasOverlap_def)

lemma merge_example:
  "withFallback 1704099600000
     [\<lparr>progId = ''news1-1704088800000'', title = ''Morning'', start = Date 1704088800000, end' = Date 1704096000000\<rparr>,
      \<lparr>progId = ''news1-1704096000000'', title = ''Midday'', start = Date 1704096000000, end' = Date 1704103200000\<rparr>]
     ''news1'' 48
   = [fallbackBlock ''news1'' 1703923200000 1703930400000,
      fallbackBlock ''news1'' 1703930400000 1703937600000,
      fallbackBlock ''news1'' 1703937600000 1703944800000,
      fallbackBlock ''news1'' 1703944800000 1703952000000,
      fallbackBlock ''news1'' 1703952000000 1703959200000,
      fallbackBlock ''news1'' 1703959200000 1703966400000,
      fallbackBlock ''news1'' 1703966400000 1703973600000,
      fallbackBlock ''news1'' 1703973600000 1703980800000,
      fallbackBlock ''news1'' 1703980800000 1703988000000,
      fallbackBlock ''news1'' 1703988000000 1703995200000,
      fallbackBlock ''news1'' 1703995200000 1704002400000,
      fallbackBlock ''news1'' 1704002400000 1704009600000,
      fallbackBlock ''news1'' 1704009600000 1704016800000,
      fallbackBlock ''news1'' 1704016800000 1704024000000,
      fallbackBlock ''news1'' 1704024000000 1704031200000,
      fallbackBlock ''news1'' 1704031200000 1704038400000,
      fallbackBlock ''news1'' 1704038400000 1704045600000,
      fallbackBlock ''news1'' 1704045600000 1704052800000,
      fallbackBlock ''news1'' 1704052800000 1704060000000,
      fallbackBlock ''news1'' 1704060000000 1704067200000,
      fallbackBlock ''news1'' 1704067200000 1704074400000,
      fallbackBlock ''news1'' 1704074400000 1704081600000,
      fallbackBlock ''news1'' 1704081600000 1704088800000] @
     [\<lparr>progId = ''news1-1704088800000'', title = ''Morning'', start = Date 1704088800000, end' = Date 1704096000000\<rparr>,
      \<lparr>progId = ''news1-1704096000000'', title = ''Midday'', start = Date 1704096000000, end' = Date 1704103200000\<rparr>]"
  by (simp add: withFallback_def generate_example sortByStart_def validStarts_def
      stableSortByStart_def cmpStartPositive_def)

text \<open>
  The lookup itself: an entry that it returns is in the list and covers the instant, and
  it returns nothing only when no entry covers the instant.
\<close>

lemma findCurrentProgram_covers:
  "(case findCurrentProgram ps (Date t) of
      Some p \<Rightarrow> p \<in> set ps \<and> covers p t
    | None \<Rightarrow> \<not> list_ex (\<lambda>p. covers p t) ps)"
  by (auto simp: findCurrentProgram_def covers_def find_None_iff list_ex_iff
      split: option.splits dest: find_Some_iff [THEN iffD1])

text \<open>The effect reads neither the play mode nor the position of the session.\<close>

lemma updateCurrentProgram_ignores_session:
  "updateCurrentProgram now genNow (st\<lparr>playMode := m, currentTime := c\<rparr>) epgData
     = updateCurrentProgram now genNow st epgData"
  by (simp add: updateCurrentProgram_def)

text \<open>
  C4, in the App component. A catchup session of channel news1 is at 07:00 UTC on
  1 January 2024 (\<open>playerState.currentTime\<close>) while the wall clock reads 09:00. The
  effect of lines 55-80 sets the entry of 08:00 to 10:00 as the current programme; that
  entry does not cover the position of the session, and the entry of 06:00 to 08:00,
  which covers it, is in the guide.
\<close>

theorem update_effect_reads_wall_clock:
  "updateCurrentProgram 1704099600000 1704099600000
     \<lparr>currentChannel =
        Some \<lparr>chId = ''news1'', name = ''News One'', group = ''News'', url = ''http://tv.example/news1'',
              logo = None, tvgId = Some ''news1'', tvgName = None, catchup = Some ''default'',
              catchupSource = Some ''http://tv.example/news1?start={utc}''\<rparr>,
      playMode = Catchup, currentTime = Date 1704092400000\<rparr>
     (Some [''news1'' \<mapsto>
        [\<lparr>progId = ''news1-1704088800000'', title = ''Morning'', start = Date 1704088800000, end' = Date 1704096000000\<rparr>,
      \<lparr>progId = ''news1-1704096000000'', title = ''Midday'', start = Date 1704096000000, end' = Date 1704103200000\<rparr>]])
   = Inr (Some (Some
       \<lparr>progId = ''news1-1704096000000'', title = ''Midday'', start = Date 1704096000000, end' = Date 1704103200000\<rparr>)) \<and>
   \<not> covers \<lparr>progId = ''news1-1704096000000'', title = ''Midday'', start = Date 1704096000000, end' = Date 1704103200000\<rparr>
       1704092400000 \<and>
   covers \<lparr>progId = ''news1-1704088800000'', title = ''Morning'', start = Date 1704088800000, end' = Date 1704096000000\<rparr>
       1704092400000"
  by (simp add: updateCurrentProgram_def merge_example findCurrentProgram_def covers_def)

section \<open>Properties of the player page\<close>

text \<open>
  C3. Seek clamping, with \<open>N\<close> the wall clock, \<open>s\<close> the current stream start and \<open>t\<close>
  the requested time, in milliseconds: a request later than \<open>N\<close> minus 30 seconds moves
  the stream start to \<open>N\<close> when \<open>s\<close> is earlier than \<open>t\<close>, and to \<open>N\<close> minus 30 seconds
  otherwise; a request 30 seconds or more before \<open>N\<close> becomes the stream start as it
  is. With \<open>N = T\<close>, a seek to \<open>T - 5s\<close> from a stream start of \<open>T - 100s\<close> gives \<open>T\<close>, and
  from a stream start of \<open>T - 1s\<close> it gives \<open>T - 30s\<close>.
\<close>

theorem seek_clamping:
  "(N - 30 * 1000 < t \<and> s < t \<longrightarrow> handleVideoSeek N (Date s) (Date t) = Date N) \<and>
   (N - 30 * 1000 < t \<and> \<not> s < t \<longrightarrow>
      handleVideoSeek N (Date s) (Date t) = Date (N - 30 * 1000)) \<and>
   (t \<le> N - 30 * 1000 \<longrightarrow> handleVideoSeek N (Date s) (Date t) = Date t) \<and>
   handleVideoSeek T (Date (T - 100 * 1000)) (Date (T - 5 * 1000)) = Date T \<and>
   handleVideoSeek T (Date (T - 1 * 1000)) (Date (T - 5 * 1000)) = Date (T - 30 * 1000)"
  by (simp add: handleVideoSeek_def timeAfter_def)

theorem seek_clamping_witness:
  "handleVideoSeek 1000000 (Date 900000) (Date 995000) = Date 1000000 \<and>
   handleVideoSeek 1000000 (Date 999000) (Date 995000) = Date 970000 \<and>
   handleVideoSeek 1000000 (Date 999000) (Date 970000) = Date 970000 \<and>
   handleVideoSeek 1000000 (Date 999000) (Date 400000) = Date 400000"
  using seek_clamping [of 1000000 995000 900000 0]
    seek_clamping [of 1000000 995000 999000 0]
    seek_clamping [of 1000000 970000 999000 0]
    seek_clamping [of 1000000 400000 999000 0]
  by simp

lemma findIndexFrom_nth:
  "distinct xs \<Longrightarrow> i < length xs \<Longrightarrow> findIndexFrom k (\<lambda>c. c = xs ! i) xs = k + int i"
proof (induction xs arbitrary: i k)
  case Nil
  then show ?case by simp
next
  case (Cons x xs)
  show ?case
  proof (cases i)
    case 0
    then show ?thesis by simp
  next
    case (Suc j)
    with Cons.prems have "x \<noteq> xs ! j" "j < length xs" "distinct xs" by auto
    with Cons.IH [of j "k + 1"] Suc show ?thesis by simp
  qed
qed

lemma findIndex_last:
  assumes "distinct xs" and "xs \<noteq> []"
  shows "findIndex (\<lambda>c. c = last xs) xs = int (length xs) - 1"
proof -
  from assms(2) have lt: "length xs - 1 < length xs" by simp
  from assms(2) have "int (length xs - 1) = int (length xs) - 1" by (cases xs) simp_all
  with findIndexFrom_nth [OF assms(1) lt, of 0] assms(2) show ?thesis
    by (simp add: findIndex_def last_conv_nth)
qed

lemma findIndex_hd: "xs \<noteq> [] \<Longrightarrow> findIndex (\<lambda>c. c = hd xs) xs = 0"
  by (cases xs) (simp_all add: findIndex_def)

lemma elemAt_first: "xs \<noteq> [] \<Longrightarrow> elemAt xs 0 = Some (hd xs)"
  by (cases xs) (simp_all add: elemAt_def)

lemma elemAt_last: "xs \<noteq> [] \<Longrightarrow> elemAt xs (int (length xs) - 1) = Some (last xs)"
proof -
  assume ne: "xs \<noteq> []"
  then have "nat (int (length xs) - 1) = length xs - 1" by simp
  with ne show ?thesis by (simp add: elemAt_def last_conv_nth)
qed

text \<open>
  C7. Channel navigation wraps around. In a catalog that is not empty, and whose
  channels are different objects, "next" from the last channel selects the first and
  "prev" from the first selects the last (and the stream start becomes the clock
  reading). An explicit 1-based index below 1 or above the length of the catalog leaves
  the selection as it is.
\<close>

theorem navigation_wraps:
  "(distinct catalog \<and> catalog \<noteq> [] \<longrightarrow>
     handleChannelNavigate now (Some catalog) Next (sel\<lparr>pageChannel := Some (last catalog)\<rparr>)
       = \<lparr>pageChannel = Some (hd catalog), pageStreamStart = Date now\<rparr> \<and>
     handleChannelNavigate now (Some catalog) Prev (sel\<lparr>pageChannel := Some (hd catalog)\<rparr>)
       = \<lparr>pageChannel = Some (last catalog), pageStreamStart = Date now\<rparr>) \<and>
   (n < 1 \<or> int (length catalog) < n \<longrightarrow>
     handleChannelNavigate now (Some catalog) (Index n) sel = sel)"
proof (intro conjI impI)
  assume "distinct catalog \<and> catalog \<noteq> []"
  then have d: "distinct catalog" and ne: "catalog \<noteq> []" by simp_all
  show "handleChannelNavigate now (Some catalog) Next (sel\<lparr>pageChannel := Some (last catalog)\<rparr>)
       = \<lparr>pageChannel = Some (hd catalog), pageStreamStart = Date now\<rparr>"
    using ne by (simp add: handleChannelNavigate_def findIndex_last [OF d ne]
        elemAt_first selectChannel_def)
  show "handleChannelNavigate now (Some catalog) Prev (sel\<lparr>pageChannel := Some (hd catalog)\<rparr>)
       = \<lparr>pageChannel = Some (last catalog), pageStreamStart = Date now\<rparr>"
    using ne by (simp add: handleChannelNavigate_def findIndex_hd [OF ne]
        elemAt_last selectChannel_def)
next
  assume "n < 1 \<or> int (length catalog) < n"
  then show "handleChannelNavigate now (Some catalog) (Index n) sel = sel"
    by (auto simp: handleChannelNavigate_def elemAt_def)
qed

theorem navigation_wraps_witness:
  "handleChannelNavigate 5000 (Some [''a'', ''b'', ''c'']) Next
       \<lparr>pageChannel = Some ''c'', pageStreamStart = Date 0\<rparr>
     = \<lparr>pageChannel = Some ''a'', pageStreamStart = Date 5000\<rparr> \<and>
   handleChannelNavigate 5000 (Some [''a'', ''b'', ''c'']) Prev
       \<lparr>pageChannel = Some ''a'', pageStreamStart = Date 0\<rparr>
     = \<lparr>pageChannel = Some ''c'', pageStreamStart = Date 5000\<rparr> \<and>
   handleChannelNavigate 5000 (Some [''a'', ''b'', ''c'']) (Index 4)
       \<lparr>pageChannel = Some ''b'', pageStreamStart = Date 0\<rparr>
     = \<lparr>pageChannel = Some ''b'', pageStreamStart = Date 0\<rparr> \<and>
   handleChannelNavigate 5000 (Some [''a'', ''b'', ''c'']) (Index 0)
       \<lparr>pageChannel = Some ''b'', pageStreamStart = Date 0\<rparr>
     = \<lparr>pageChannel = Some ''b'', pageStreamStart = Date 0\<rparr>"
  using navigation_wraps [of "[''a'', ''b'', ''c'']" 5000
      "\<lparr>pageChannel = Some ''c'', pageStreamStart = Date 0\<rparr>" 4]
    navigation_wraps [of "[''a'', ''b'', ''c'']" 5000
      "\<lparr>pageChannel = Some ''a'', pageStreamStart = Date 0\<rparr>" 0]
    navigation_wraps [of "[''a'', ''b'', ''c'']" 5000
      "\<lparr>pageChannel = Some ''b'', pageStreamStart = Date 0\<rparr>" 4]
    navigation_wraps [of "[''a'', ''b'', ''c'']" 5000
      "\<lparr>pageChannel = Some ''b'', pageStreamStart = Date 0\<rparr>" 0]
  by simp

section \<open>Properties of the segment builder\<close>

text \<open>
  On a catchup-capable channel the builder returns: the live segment for a request at the
  live edge, and otherwise the descriptors of the template when each of them starts no
  later than it ends.
\<close>

lemma build_live_edge:
  assumes "catchup channel = Some mode" and "catchupSource channel = Some template"
    and "timeAfter requestedStart (now - recencyMs)"
  shows "buildCatchupSegments instantiate recencyMs now channel requestedStart tailOffsetSeconds
    = Inr [\<lparr>segUrl = url channel, duration = 0\<rparr>]"
  using assms by (simp add: buildCatchupSegments_def)

lemma build_time_shifted:
  assumes "catchup channel = Some mode" and "catchupSource channel = Some template"
    and "\<not> timeAfter requestedStart (now - recencyMs)"
    and "\<forall>s \<in> set (instantiate template requestedStart (now - tailOffsetSeconds * 1000)).
           effectiveStart s \<le> effectiveEnd s"
  shows "buildCatchupSegments instantiate recencyMs now channel requestedStart tailOffsetSeconds
    = Inr (map descriptor
        (instantiate template requestedStart (now - tailOffsetSeconds * 1000)))"
  using assms by (auto simp: buildCatchupSegments_def Let_def list_ex_iff)

text \<open>
  The page keeps the contract: for a channel whose catchup mode or catchup source is
  missing or empty, the effect of lines 295-318 does not call the builder.
\<close>

lemma playbackEffect_guards_builder:
  assumes "\<not> truthy (catchup ch) \<or> \<not> truthy (catchupSource ch)"
  shows "playbackEffect build now (Some ch) streamStartTime catchupTailOffset st
    = (if timeAfter streamStartTime (now - 3000)
       then Inr (st\<lparr>playbackSegments := [\<lparr>segUrl = url ch, duration = 0\<rparr>],
                    pagePlayMode := Live\<rparr>)
       else Inr st)"
  using assms by (auto simp: playbackEffect_def)

text \<open>
  C9. Building catchup segments for a channel that lacks catchup capability, that is a
  channel with no catchup mode or with no catchup-source template, signals a policy
  violation to the caller, whatever the requested start, also at the live edge; it never
  returns a segment list.
\<close>

theorem build_without_capability_fails:
  assumes "catchup channel = None \<or> catchupSource channel = None"
  shows "buildCatchupSegments instantiate recencyMs now channel requestedStart tailOffsetSeconds
    = Inl PolicyViolation"
  using assms by (auto simp: buildCatchupSegments_def split: option.splits)

theorem build_without_capability_fails_witness:
  "catchupSource
     \<lparr>chId = ''news1'', name = ''News One'', group = ''News'',
      url = ''http://tv.example/news1'', logo = None, tvgId = Some ''news1'',
      tvgName = None, catchup = Some ''default'', catchupSource = None\<rparr> = None \<and>
   buildCatchupSegments
     (\<lambda>template requestedStart endBoundary.
        [\<lparr>descriptor = \<lparr>segUrl = template, duration = 3600\<rparr>,
          effectiveStart = 1704092400000, effectiveEnd = endBoundary\<rparr>])
     3000 1704099600000
     \<lparr>chId = ''news1'', name = ''News One'', group = ''News'',
      url = ''http://tv.example/news1'', logo = None, tvgId = Some ''news1'',
      tvgName = None, catchup = Some ''default'', catchupSource = None\<rparr>
     (Date 1704092400000) 30
   = Inl PolicyViolation"
  using build_without_capability_fails [where channel =
     "\<lparr>chId = ''news1'', name = ''News One'', group = ''News'',
      url = ''http://tv.example/news1'', logo = None, tvgId = Some ''news1'',
      tvgName = None, catchup = Some ''default'', catchupSource = None\<rparr>"
     and instantiate = "\<lambda>template requestedStart endBoundary.
        [\<lparr>descriptor = \<lparr>segUrl = template, duration = 3600\<rparr>,
          effectiveStart = 1704092400000, effectiveEnd = endBoundary\<rparr>]"
     and recencyMs = 3000 and now = 1704099600000
     and requestedStart = "Date 1704092400000" and tailOffsetSeconds = 30]
  by simp

lemma build_example:
  "buildCatchupSegments
     (\<lambda>template requestedStart endBoundary.
        [\<lparr>descriptor = \<lparr>segUrl = template, duration = 3600\<rparr>,
          effectiveStart = 1704092400000, effectiveEnd = endBoundary\<rparr>])
     3000 1704099600000
     \<lparr>chId = ''news1'', name = ''News One'', group = ''News'',
      url = ''http://tv.example/news1'', logo = None, tvgId = Some ''news1'',
      tvgName = None, catchup = Some ''default'',
      catchupSource = Some ''http://tv.example/news1/shift''\<rparr>
     (Date 1704092400000) 30
   = Inr [\<lparr>segUrl = ''http://tv.example/news1/shift'', duration = 3600\<rparr>]"
  by (simp add: buildCatchupSegments_def timeAfter_def)

section \<open>Properties of the channel-EPG resolver\<close>

text \<open>
  C5. Resolver fallback order: the result is the channel's \<open>tvgId\<close> when that is a key
  of the index; otherwise its \<open>tvgName\<close> when that is a key; otherwise its \<open>name\<close> when
  that is a key; otherwise none. Each of the three tiers, and the empty result, is
  reached by one channel against four indexes.
\<close>

theorem resolver_fallback_order:
  "getEPGChannelId ch epg =
     (if tvgId ch \<noteq> None \<and> the (tvgId ch) \<in> dom epg then tvgId ch
      else if tvgName ch \<noteq> None \<and> the (tvgName ch) \<in> dom epg then tvgName ch
      else if name ch \<in> dom epg then Some (name ch)
      else None) \<and>
   getEPGChannelId (c\<lparr>tvgId := Some ''a'', tvgName := Some ''b'', name := ''c''\<rparr>)
       [''a'' \<mapsto> [], ''b'' \<mapsto> [], ''c'' \<mapsto> []] = Some ''a'' \<and>
   getEPGChannelId (c\<lparr>tvgId := Some ''a'', tvgName := Some ''b'', name := ''c''\<rparr>)
       [''b'' \<mapsto> [], ''c'' \<mapsto> []] = Some ''b'' \<and>
   getEPGChannelId (c\<lparr>tvgId := Some ''a'', tvgName := Some ''b'', name := ''c''\<rparr>)
       [''c'' \<mapsto> []] = Some ''c'' \<and>
   getEPGChannelId (c\<lparr>tvgId := Some ''a'', tvgName := Some ''b'', name := ''c''\<rparr>)
       [''d'' \<mapsto> []] = None"
  by (auto simp: getEPGChannelId_def dom_def split: option.splits)

theorem resolver_fallback_order_witness:
  "getEPGChannelId
     \<lparr>chId = ''n1'', name = ''News HD'', group = ''Info'', url = ''http://x/1'',
      logo = None, tvgId = Some ''news1'', tvgName = Some ''News'', catchup = None,
      catchupSource = None\<rparr>
     [''News'' \<mapsto> [], ''News HD'' \<mapsto> []] = Some ''News'' \<and>
   getEPGChannelId
     \<lparr>chId = ''n1'', name = ''News HD'', group = ''Info'', url = ''http://x/1'',
      logo = None, tvgId = None, tvgName = None, catchup = None,
      catchupSource = None\<rparr>
     [''News'' \<mapsto> [], ''News HD'' \<mapsto> []] = Some ''News HD''"
  using resolver_fallback_order [of
     "\<lparr>chId = ''n1'', name = ''News HD'', group = ''Info'', url = ''http://x/1'',
      logo = None, tvgId = Some ''news1'', tvgName = Some ''News'', catchup = None,
      catchupSource = None\<rparr>" "[''News'' \<mapsto> [], ''News HD'' \<mapsto> []]" undefined]
    resolver_fallback_order [of
     "\<lparr>chId = ''n1'', name = ''News HD'', group = ''Info'', url = ''http://x/1'',
      logo = None, tvgId = None, tvgName = None, catchup = None,
      catchupSource = None\<rparr>" "[''News'' \<mapsto> [], ''News HD'' \<mapsto> []]" undefined]
  by (simp add: dom_def)

section \<open>Properties of the EPG parser\<close>

subsection \<open>Timestamps\<close>

lemma isDigit_not_space: "isDigit c \<Longrightarrow> \<not> isSpace c"
  by (auto simp: isDigit_def isSpace_def)

lemma isDigit_not_sign:
  "isDigit c \<Longrightarrow> c \<noteq> CHR ''+'' \<and> c \<noteq> CHR ''-'' \<and> c \<noteq> CHR ''x'' \<and> c \<noteq> CHR ''X''"
  by (auto simp: isDigit_def)

lemma isDigit_radix: "isDigit c \<Longrightarrow> isRadixDigit 10 c"
  by (auto simp: isDigit_def isRadixDigit_def digitValue_def)

lemma parseDigits_digits:
  "ds \<noteq> [] \<Longrightarrow> list_all isDigit ds \<Longrightarrow> parseDigits 10 ds = Some (decimalValue ds)"
proof -
  assume ne: "ds \<noteq> []" and d: "list_all isDigit ds"
  from d have tw: "takeWhile (isRadixDigit 10) ds = ds"
    by (simp add: takeWhile_eq_all_conv list_all_iff isDigit_radix)
  show ?thesis
    unfolding parseDigits_def Let_def tw decimalValue_def using ne by simp
qed

text \<open>\<open>parseInt\<close> of a run of digits is its decimal value.\<close>

lemma parseInt_digits:
  assumes "ds \<noteq> []" and "list_all isDigit ds"
  shows "parseInt ds = Some (decimalValue ds)"
proof -
  from assms obtain c cs where ds: "ds = c # cs" and c: "isDigit c" and cs: "list_all isDigit cs"
    by (cases ds) simp_all
  have strip: "dropWhile isSpace ds = ds"
    using c by (simp add: ds isDigit_not_space)
  have sign: "\<not> startsWith ds ''-''" "\<not> startsWith ds ''+''"
    using isDigit_not_sign [OF c] by (simp_all add: ds startsWith_def)
  have second: "cs = [] \<or> (\<exists>d ds'. cs = d # ds' \<and> d \<noteq> CHR ''x'' \<and> d \<noteq> CHR ''X'')"
  proof (cases cs)
    case Nil
    then show ?thesis by simp
  next
    case (Cons d ds')
    with cs have "isDigit d" by simp
    from isDigit_not_sign [OF this] Cons show ?thesis by simp
  qed
  then have hex: "\<not> startsWith ds ''0x''" "\<not> startsWith ds ''0X''"
    by (auto simp: ds startsWith_def)
  show ?thesis
    by (simp add: parseInt_def Let_def strip sign hex parseDigits_digits [OF assms])
qed

lemma substring_digits:
  assumes "14 \<le> length t" and "list_all isDigit (take 14 t)" and "a < b" and "b \<le> 14"
  shows "substring t a b \<noteq> [] \<and> list_all isDigit (substring t a b)"
proof -
  have "substring t a b = take (b - a) (drop a (take 14 t))"
    using assms(3,4) by (simp add: substring_def drop_take)
  moreover have "set (take (b - a) (drop a (take 14 t))) \<subseteq> set (take 14 t)"
    by (meson order_trans set_drop_subset set_take_subset)
  moreover have "length (substring t a b) = b - a"
    using assms(1,3,4) by (simp add: substring_def)
  ultimately show ?thesis
    using assms(2,3) by (auto simp: list_all_iff)
qed

lemma parseInt_field:
  assumes "14 \<le> length t" and "list_all isDigit (take 14 t)" and "a < b" and "b \<le> 14"
  shows "parseInt (substring t a b) = Some (decimalValue (substring t a b))"
  using substring_digits [OF assms] by (simp add: parseInt_digits)

lemma six_of_fourteen:
  "length xs = 14 \<Longrightarrow> \<exists>d4 d3 d2 d1 sg w rest. xs = d4 # d3 # d2 # d1 # sg # w # rest"
  by (auto simp: numeral_eq_Suc length_Suc_conv)

text \<open>The offset is removed, and fourteen digits alone are left as they are.\<close>

lemma stripOffset_timestamp:
  assumes "isTimestamp t"
  shows "stripOffset t = take 14 t"
proof -
  from assms have len: "14 \<le> length t" and dig: "list_all isDigit (take 14 t)"
    by (simp_all add: isTimestamp_def)
  from len have ne: "take 14 t \<noteq> []" by auto
  from assms consider "drop 14 t = []" | "isOffsetSuffix (drop 14 t)"
    by (auto simp: isTimestamp_def)
  then show ?thesis
  proof cases
    case 1
    then have tt: "take 14 t = t" by (metis append_take_drop_id append_Nil2)
    with len have "length (rev t) = 14" by (metis length_rev length_take min.absorb2)
    from six_of_fourteen [OF this]
    obtain d4 d3 d2 d1 sg w rest where r: "rev t = d4 # d3 # d2 # d1 # sg # w # rest"
      by blast
    then have "sg \<in> set t" by (metis list.set_intros(1,2) set_rev)
    with tt dig have "isDigit sg" by (metis list_all_iff)
    from isDigit_not_sign [OF this] have "stripOffset t = t"
      by (simp add: stripOffset_def r)
    with tt show ?thesis by simp
  next
    case 2
    then obtain d4 d3 d2 d1 sg w rest where
      r: "rev (drop 14 t) = d4 # d3 # d2 # d1 # sg # w # rest" and
      ok: "isDigit d4" "isDigit d3" "isDigit d2" "isDigit d1"
          "sg = CHR ''+'' \<or> sg = CHR ''-''" "isSpace w" "list_all isSpace rest"
      by (auto simp: isOffsetSuffix_def split: list.splits)
    have "rev t = rev (drop 14 t) @ rev (take 14 t)"
      by (metis append_take_drop_id rev_append)
    with r have rt: "rev t = d4 # d3 # d2 # d1 # sg # w # (rest @ rev (take 14 t))" by simp
    from ne obtain c cs where cs: "rev (take 14 t) = c # cs" by (cases "rev (take 14 t)") auto
    then have "c \<in> set (take 14 t)" by (metis list.set_intros(1) set_rev)
    with dig have "isDigit c" by (simp add: list_all_iff)
    then have "dropWhile isSpace (rev (take 14 t)) = rev (take 14 t)"
      by (simp add: cs isDigit_not_space)
    with ok(7) have dw: "dropWhile isSpace (rest @ rev (take 14 t)) = rev (take 14 t)"
      by (simp add: dropWhile_append list_all_iff)
    show ?thesis
      unfolding stripOffset_def rt using ok(1-6) by (simp add: dw)
  qed
qed

text \<open>
  What \<open>parseTime\<close> makes of a timestamp whose year is 100 or later: the instant that
  the host gives for the wall-clock time of the fourteen digits.
\<close>

lemma parseTime_timestamp:
  assumes "isTimestamp t" and "100 \<le> yearOf t"
  shows "parseTime localToUtc clock t = Date (localToUtc (wallClockMs t))"
proof -
  from assms(1) have len: "14 \<le> length t" and dig: "list_all isDigit (take 14 t)"
    by (simp_all add: isTimestamp_def)
  from len have ne: "t \<noteq> []" by auto
  have sub: "substring (take 14 t) a b = substring t a b" if "b \<le> 14" for a b
    using that by (simp add: substring_def drop_take)
  note field = parseInt_field [OF len dig]
  from assms(2) have year: "\<not> decimalValue (substring t 0 4) \<le> 99"
    by (simp add: yearOf_def)
  show ?thesis
    by (simp add: parseTime_def ne stripOffset_timestamp [OF assms(1)] sub field Let_def
        newDateLocal_def wallClockMs_def yearOf_def year)
qed

subsection \<open>Entries and elements\<close>

lemma addProgramme_entries:
  assumes "addProgramme tz c1 c2 item epg = Inr epg'"
  shows "epg' = epg(orEmpty (channelAttr item) \<mapsto>
           (case epg (orEmpty (channelAttr item)) of None \<Rightarrow> [] | Some ps \<Rightarrow> ps)
             @ [programOf tz c1 c2 item])"
  using assms by (auto simp: addProgramme_def Let_def split: option.splits if_splits)

text \<open>Every entry in the result was in the dictionary before, or comes from an element.\<close>

lemma parseItems_sound:
  "parseItems tz clock i items epg = Inr epg' \<Longrightarrow> epg' k = Some ps \<Longrightarrow> p \<in> set ps \<Longrightarrow>
   (\<exists>ps0. epg k = Some ps0 \<and> p \<in> set ps0) \<or>
   (\<exists>j < length items. orEmpty (channelAttr (items ! j)) = k \<and>
      p = programOf tz (clock (2 * (i + j))) (clock (2 * (i + j) + 1)) (items ! j))"
proof (induction items arbitrary: i epg)
  case Nil
  then show ?case by simp
next
  case (Cons item items)
  from Cons.prems(1) obtain epg1 where
    a: "addProgramme tz (clock (2 * i)) (clock (2 * i + 1)) item epg = Inr epg1" and
    r: "parseItems tz clock (i + 1) items epg1 = Inr epg'"
    by (auto split: sum.splits)
  from Cons.IH [OF r Cons.prems(2,3)] show ?case
  proof
    assume "\<exists>ps0. epg1 k = Some ps0 \<and> p \<in> set ps0"
    then obtain ps0 where ps0: "epg1 k = Some ps0" "p \<in> set ps0" by blast
    show ?thesis
    proof (cases "k = orEmpty (channelAttr item)")
      case False
      with ps0 addProgramme_entries [OF a] show ?thesis by auto
    next
      case True
      with ps0 addProgramme_entries [OF a]
      have "p \<in> set (case epg k of None \<Rightarrow> [] | Some ps \<Rightarrow> ps) \<or>
            p = programOf tz (clock (2 * i)) (clock (2 * i + 1)) item"
        by auto
      then show ?thesis
      proof
        assume "p \<in> set (case epg k of None \<Rightarrow> [] | Some ps \<Rightarrow> ps)"
        then show ?thesis by (auto split: option.splits)
      next
        assume "p = programOf tz (clock (2 * i)) (clock (2 * i + 1)) item"
        with True have "0 < length (item # items) \<and>
          orEmpty (channelAttr ((item # items) ! 0)) = k \<and>
          p = programOf tz (clock (2 * (i + 0))) (clock (2 * (i + 0) + 1)) ((item # items) ! 0)"
          by simp
        then show ?thesis by blast
      qed
    qed
  next
    assume "\<exists>j<length items. orEmpty (channelAttr (items ! j)) = k \<and>
      p = programOf tz (clock (2 * (i + 1 + j))) (clock (2 * (i + 1 + j) + 1)) (items ! j)"
    then obtain j where j: "j < length items" "orEmpty (channelAttr (items ! j)) = k"
      "p = programOf tz (clock (2 * (i + 1 + j))) (clock (2 * (i + 1 + j) + 1)) (items ! j)"
      by blast
    then have "Suc j < length (item # items) \<and>
      orEmpty (channelAttr ((item # items) ! Suc j)) = k \<and>
      p = programOf tz (clock (2 * (i + Suc j))) (clock (2 * (i + Suc j) + 1))
            ((item # items) ! Suc j)"
      by simp
    then show ?thesis by blast
  qed
qed

text \<open>An entry once stored stays under its key.\<close>

lemma parseItems_keeps:
  "parseItems tz clock i items epg = Inr epg' \<Longrightarrow> epg k = Some ps0 \<Longrightarrow>
   \<exists>ps. epg' k = Some ps \<and> set ps0 \<subseteq> set ps"
proof (induction items arbitrary: i epg ps0)
  case Nil
  then show ?case by simp
next
  case (Cons item items)
  from Cons.prems(1) obtain epg1 where
    a: "addProgramme tz (clock (2 * i)) (clock (2 * i + 1)) item epg = Inr epg1" and
    r: "parseItems tz clock (i + 1) items epg1 = Inr epg'"
    by (auto split: sum.splits)
  from addProgramme_entries [OF a] Cons.prems(2)
  obtain ps1 where "epg1 k = Some ps1" "set ps0 \<subseteq> set ps1"
    by (cases "k = orEmpty (channelAttr item)") auto
  with Cons.IH [OF r this(1)] show ?case by blast
qed

text \<open>Every element leaves its entry under its channel key.\<close>

lemma parseItems_complete:
  "parseItems tz clock i items epg = Inr epg' \<Longrightarrow> j < length items \<Longrightarrow>
   \<exists>ps. epg' (orEmpty (channelAttr (items ! j))) = Some ps \<and>
     programOf tz (clock (2 * (i + j))) (clock (2 * (i + j) + 1)) (items ! j) \<in> set ps"
proof (induction items arbitrary: i epg j)
  case Nil
  then show ?case by simp
next
  case (Cons item items)
  from Cons.prems(1) obtain epg1 where
    a: "addProgramme tz (clock (2 * i)) (clock (2 * i + 1)) item epg = Inr epg1" and
    r: "parseItems tz clock (i + 1) items epg1 = Inr epg'"
    by (auto split: sum.splits)
  show ?case
  proof (cases j)
    case 0
    from addProgramme_entries [OF a] obtain ps1 where
      "epg1 (orEmpty (channelAttr item)) = Some ps1"
      "programOf tz (clock (2 * i)) (clock (2 * i + 1)) item \<in> set ps1"
      by auto
    with parseItems_keeps [OF r this(1)] 0 show ?thesis by auto
  next
    case (Suc j')
    with Cons.prems(2) have "j' < length items" by simp
    from Cons.IH [OF r this] Suc show ?thesis by simp
  qed
qed

lemma programOf_times:
  "start (programOf tz c1 c2 item) = parseTime tz c1 (orEmpty (startAttr item)) \<and>
   end' (programOf tz c1 c2 item) = parseTime tz c2 (orEmpty (stopAttr item))"
  by (simp add: programOf_def Let_def)

lemma entriesOf_parseEPG:
  "set (entriesOf (parseEPG tz clock items) k) =
     (case parseItems tz clock 0 items Map.empty of
        Inl e \<Rightarrow> {}
      | Inr epg \<Rightarrow> (case epg k of None \<Rightarrow> {} | Some ps \<Rightarrow> set ps))"
  by (simp add: entriesOf_def parseEPG_def set_sortByStart split: sum.splits option.splits)

lemma parseTime_example_8: "parseTime utcZone c ''20240101080000'' = Date 1704096000000"
  by code_simp

lemma parseTime_example_6: "parseTime utcZone c ''20240101060000'' = Date 1704088800000"
  by code_simp

lemma parseTime_example_gap: "parseTime newYorkZone c ''20240310023000'' = Date 1710055800000"
  by code_simp

lemma parseTime_example_edt:
  "parseTime newYorkZone c ''20240310030000 -0400'' = Date 1710054000000"
  by code_simp

lemma intToString_example_8: "intToString 1704096000000 = ''1704096000000''"
  by (simp add: intToString_def natToString.simps digitChar_def)

lemma intToString_example_gap: "intToString 1710055800000 = ''1710055800000''"
  by (simp add: intToString_def natToString.simps digitChar_def)

lemma parseEPG_example_utc:
  "entriesOf (parseEPG utcZone (fixedClock 0)
     [\<lparr>channelAttr = Some ''news1'', startAttr = Some ''20240101080000'',
        stopAttr = Some ''20240101060000'', titleText = Some ''Late''\<rparr>]) ''news1''
   = [\<lparr>progId = ''news1-1704096000000'', title = ''Late'',
        start = Date 1704096000000, end' = Date 1704088800000\<rparr>]"
  by (simp add: entriesOf_def parseEPG_def addProgramme_def programOf_def
      parseTime_example_8 parseTime_example_6 intToString_example_8
      orEmpty_def objectPrototypeKeys_def sortByStart_def validStarts_def
      stableSortByStart_def)

lemma parseEPG_example_new_york:
  "entriesOf (parseEPG newYorkZone (fixedClock 0)
     [\<lparr>channelAttr = Some ''news1'', startAttr = Some ''20240310023000'',
        stopAttr = Some ''20240310030000 -0400'', titleText = Some ''Night''\<rparr>]) ''news1''
   = [\<lparr>progId = ''news1-1710055800000'', title = ''Night'',
        start = Date 1710055800000, end' = Date 1710054000000\<rparr>]"
  by (simp add: entriesOf_def parseEPG_def addProgramme_def programOf_def
      parseTime_example_gap parseTime_example_edt intToString_example_gap
      orEmpty_def objectPrototypeKeys_def sortByStart_def validStarts_def
      stableSortByStart_def)

lemma timestamp_examples:
  "isTimestamp ''20240310023000'' \<and> isTimestamp ''20240310030000 -0400'' \<and>
   yearOf ''20240310023000'' = 2024 \<and> yearOf ''20240310030000 -0400'' = 2024 \<and>
   wallClockMs ''20240310023000'' = 1710037800000 \<and>
   wallClockMs ''20240310030000 -0400'' = 1710039600000"
  by code_simp

text \<open>
  C8, as the code has it. Every entry that \<open>parseEPG\<close> produces under a channel key comes
  from a \<open>programme\<close> element with that key, and its start and its end are what
  \<open>parseTime\<close> makes of the element's \<open>start\<close> and \<open>stop\<close> attributes; the parser never
  compares the two. When both attributes are timestamps (fourteen digits with a year of
  100 or later, and an optional offset, which is ignored), the start and the end are the
  instants that the host's time zone gives for their wall-clock times, so the end is
  strictly after the start exactly when the host maps the wall-clock time of \<open>stop\<close> to a
  later instant than that of \<open>start\<close>. When \<open>parseEPG\<close> returns, every element has its
  entry, whatever the order of its two instants.
\<close>

theorem parseEPG_entry_times:
  "(\<forall>p \<in> set (entriesOf (parseEPG localToUtc clock items) k).
      \<exists>i < length items.
        orEmpty (channelAttr (items ! i)) = k \<and>
        start p = parseTime localToUtc (clock (2 * i)) (orEmpty (startAttr (items ! i))) \<and>
        end' p = parseTime localToUtc (clock (2 * i + 1)) (orEmpty (stopAttr (items ! i))) \<and>
        (isTimestamp (orEmpty (startAttr (items ! i))) \<and>
         100 \<le> yearOf (orEmpty (startAttr (items ! i))) \<and>
         isTimestamp (orEmpty (stopAttr (items ! i))) \<and>
         100 \<le> yearOf (orEmpty (stopAttr (items ! i))) \<longrightarrow>
           start p = Date (localToUtc (wallClockMs (orEmpty (startAttr (items ! i))))) \<and>
           end' p = Date (localToUtc (wallClockMs (orEmpty (stopAttr (items ! i))))) \<and>
           date_gt (end' p) (start p) =
             (localToUtc (wallClockMs (orEmpty (startAttr (items ! i))))
                < localToUtc (wallClockMs (orEmpty (stopAttr (items ! i))))))) \<and>
   (parseEPG localToUtc clock items \<noteq> Inl TypeError \<longrightarrow>
      (\<forall>i < length items.
         programOf localToUtc (clock (2 * i)) (clock (2 * i + 1)) (items ! i)
           \<in> set (entriesOf (parseEPG localToUtc clock items)
                   (orEmpty (channelAttr (items ! i))))))"
proof (intro conjI ballI impI allI)
  fix p
  assume p: "p \<in> set (entriesOf (parseEPG localToUtc clock items) k)"
  then obtain epg ps where
    r: "parseItems localToUtc clock 0 items Map.empty = Inr epg" and
    ps: "epg k = Some ps" "p \<in> set ps"
    by (auto simp: entriesOf_parseEPG split: sum.splits option.splits)
  from parseItems_sound [OF r ps] obtain j where
    j: "j < length items" "orEmpty (channelAttr (items ! j)) = k"
       "p = programOf localToUtc (clock (2 * j)) (clock (2 * j + 1)) (items ! j)"
    by auto
  let ?a = "orEmpty (startAttr (items ! j))" and ?b = "orEmpty (stopAttr (items ! j))"
  from j(3) programOf_times [of localToUtc "clock (2 * j)" "clock (2 * j + 1)" "items ! j"]
  have se: "start p = parseTime localToUtc (clock (2 * j)) ?a"
           "end' p = parseTime localToUtc (clock (2 * j + 1)) ?b"
    by simp_all
  have "start p = Date (localToUtc (wallClockMs ?a)) \<and>
        end' p = Date (localToUtc (wallClockMs ?b)) \<and>
        date_gt (end' p) (start p) =
          (localToUtc (wallClockMs ?a) < localToUtc (wallClockMs ?b))"
    if "isTimestamp ?a \<and> 100 \<le> yearOf ?a \<and> isTimestamp ?b \<and> 100 \<le> yearOf ?b"
    using that se by (simp add: parseTime_timestamp)
  with j(1,2) se show "\<exists>i < length items.
        orEmpty (channelAttr (items ! i)) = k \<and>
        start p = parseTime localToUtc (clock (2 * i)) (orEmpty (startAttr (items ! i))) \<and>
        end' p = parseTime localToUtc (clock (2 * i + 1)) (orEmpty (stopAttr (items ! i))) \<and>
        (isTimestamp (orEmpty (startAttr (items ! i))) \<and>
         100 \<le> yearOf (orEmpty (startAttr (items ! i))) \<and>
         isTimestamp (orEmpty (stopAttr (items ! i))) \<and>
         100 \<le> yearOf (orEmpty (stopAttr (items ! i))) \<longrightarrow>
           start p = Date (localToUtc (wallClockMs (orEmpty (startAttr (items ! i))))) \<and>
           end' p = Date (localToUtc (wallClockMs (orEmpty (stopAttr (items ! i))))) \<and>
           date_gt (end' p) (start p) =
             (localToUtc (wallClockMs (orEmpty (startAttr (items ! i))))
                < localToUtc (wallClockMs (orEmpty (stopAttr (items ! i))))))"
    by blast
next
  fix i
  assume ok: "parseEPG localToUtc clock items \<noteq> Inl TypeError" and i: "i < length items"
  from ok obtain epg where r: "parseItems localToUtc clock 0 items Map.empty = Inr epg"
    by (cases "parseItems localToUtc clock 0 items Map.empty")
       (auto simp: parseEPG_def intro: error.exhaust)
  from parseItems_complete [OF r i] r
  show "programOf localToUtc (clock (2 * i)) (clock (2 * i + 1)) (items ! i)
           \<in> set (entriesOf (parseEPG localToUtc clock items)
                   (orEmpty (channelAttr (items ! i))))"
    by (auto simp: entriesOf_parseEPG)
qed

text \<open>
  On a host in New York, an element that starts at 02:30 and stops at 03:00 on 10 March
  2024: the two wall-clock times are in order, the host maps them to 07:30 and 07:00
  UTC, and the entry ends before it starts.
\<close>

theorem parseEPG_entry_times_witness:
  "entriesOf (parseEPG newYorkZone (fixedClock 0)
     [\<lparr>channelAttr = Some ''news1'', startAttr = Some ''20240310023000'',
        stopAttr = Some ''20240310030000 -0400'', titleText = Some ''Night''\<rparr>]) ''news1''
   = [\<lparr>progId = ''news1-1710055800000'', title = ''Night'',
        start = Date 1710055800000, end' = Date 1710054000000\<rparr>] \<and>
   wallClockMs ''20240310023000'' = 1710037800000 \<and>
   wallClockMs ''20240310030000 -0400'' = 1710039600000 \<and>
   newYorkZone 1710037800000 = 1710055800000 \<and>
   newYorkZone 1710039600000 = 1710054000000 \<and>
   \<not> date_gt (Date 1710054000000) (Date 1710055800000)"
  using parseEPG_entry_times [of newYorkZone "fixedClock 0"
     "[\<lparr>channelAttr = Some ''news1'', startAttr = Some ''20240310023000'',
        stopAttr = Some ''20240310030000 -0400'', titleText = Some ''Night''\<rparr>]" "''news1''"]
  by (simp add: parseEPG_example_new_york timestamp_examples orEmpty_def newYorkZone_def
      parseTime_example_gap parseTime_example_edt)

text \<open>
  The claim C8 as stated fails: on a host whose local time is UTC, a \<open>programme\<close>
  element of channel news1 that starts at 08:00 and stops at 06:00 on 1 January 2024
  yields an entry whose end is two hours before its start.
\<close>

theorem parseEPG_end_before_start_counterexample:
  "entriesOf (parseEPG utcZone (fixedClock 0)
     [\<lparr>channelAttr = Some ''news1'', startAttr = Some ''20240101080000'',
        stopAttr = Some ''20240101060000'', titleText = Some ''Late''\<rparr>]) ''news1''
   = [\<lparr>progId = ''news1-1704096000000'', title = ''Late'',
        start = Date 1704096000000, end' = Date 1704088800000\<rparr>] \<and>
   \<not> date_gt (Date 1704088800000) (Date 1704096000000)"
  by (simp add: parseEPG_example_utc)

section \<open>Properties of the playlist parser\<close>

lemma attrAt_nonempty: "attrAt key s = Some v \<Longrightarrow> v \<noteq> []"
  by (auto simp: attrAt_def Let_def split: if_splits)

lemma matchAttr_nonempty: "matchAttr key s = Some v \<Longrightarrow> v \<noteq> []"
  by (induction s) (auto dest: attrAt_nonempty split: option.splits)

lemma makeChannel_id:
  assumes "truthy (metaName meta)" and "metaTvgId meta \<noteq> Some []"
  shows "idDerived (makeChannel meta u n)"
  using assms
  by (auto simp: idDerived_def makeChannel_def orElse_def truthy_def split: option.splits)

text \<open>
  The invariant of the loop: every channel pushed so far has a derived id, and the
  pending \<open>tvgId\<close> is not the empty string.
\<close>

lemma parseLine_id:
  assumes "\<forall>c \<in> set (channels st). idDerived c" and "metaTvgId (currentMeta st) \<noteq> Some []"
  shows "(\<forall>c \<in> set (channels (parseLine line st)). idDerived c) \<and>
         metaTvgId (currentMeta (parseLine line st)) \<noteq> Some []"
  using assms makeChannel_id [of "currentMeta st"]
  by (auto simp: parseLine_def Let_def parseExtinf_def emptyMeta_def
      dest: matchAttr_nonempty split: option.splits)

lemma fold_parseLine_id:
  "\<forall>c \<in> set (channels st). idDerived c \<Longrightarrow> metaTvgId (currentMeta st) \<noteq> Some [] \<Longrightarrow>
   \<forall>c \<in> set (channels (fold parseLine ls st)). idDerived c"
proof (induction ls arbitrary: st)
  case Nil
  then show ?case by simp
next
  case (Cons l ls)
  from parseLine_id [OF Cons.prems, of l] Cons.IH [of "parseLine l st"]
  show ?case by simp
qed

lemma parseM3U_example:
  "parseM3U ''#EXTM3U\<newline>#EXTINF:-1 tvg-id=\"news1\" group-title=\"Info\",News HD\<newline>http://x/1\<newline>#EXTINF:-1,Plain\<newline>http://x/2''
   = \<lparr>tvgUrl = None,
      channels = [\<lparr>chId = ''news1'', name = ''News HD'', group = ''Info'', url = ''http://x/1'',
                   logo = None, tvgId = Some ''news1'', tvgName = None, catchup = None,
                   catchupSource = None\<rparr>,
                 \<lparr>chId = ''Plain'', name = ''Plain'', group = ''Default'', url = ''http://x/2'',
                   logo = None, tvgId = None, tvgName = None, catchup = None,
                   catchupSource = None\<rparr>],
      groups = [''Info'']\<rparr>"
  by code_simp

text \<open>
  C6. Every channel that \<open>parseM3U\<close> emits has an id that is not empty, and the id
  follows a fixed priority: the \<open>tvg-id\<close> attribute when the line has one, else the
  display title, else \<open>channel-<index>\<close>. A channel is only emitted with a title, so
  the third tier is the value of the expression for a record with neither, and no
  emitted channel has it.
\<close>

theorem channel_id_priority:
  "(\<forall>c \<in> set (channels (parseM3U m3uContent)).
      chId c \<noteq> [] \<and> chId c = (case tvgId c of Some t \<Rightarrow> t | None \<Rightarrow> name c)) \<and>
   chId (makeChannel (meta\<lparr>metaTvgId := Some (t # ts)\<rparr>) u n) = t # ts \<and>
   chId (makeChannel (meta\<lparr>metaTvgId := None, metaName := Some (d # ds)\<rparr>) u n) = d # ds \<and>
   chId (makeChannel (meta\<lparr>metaTvgId := None, metaName := None\<rparr>) u n)
     = ''channel-'' @ intToString (int n)"
proof -
  have "\<forall>c \<in> set (channels (fold parseLine (splitLines m3uContent) initialState)). idDerived c"
    by (rule fold_parseLine_id) (simp_all add: initialState_def emptyMeta_def)
  then have "\<forall>c \<in> set (channels (parseM3U m3uContent)).
      chId c \<noteq> [] \<and> chId c = (case tvgId c of Some t \<Rightarrow> t | None \<Rightarrow> name c)"
    unfolding idDerived_def by (auto simp: parseM3U_def Let_def)
  moreover have "chId (makeChannel (meta\<lparr>metaTvgId := Some (t # ts)\<rparr>) u n) = t # ts"
    by (simp add: makeChannel_def orElse_def truthy_def)
  moreover have
    "chId (makeChannel (meta\<lparr>metaTvgId := None, metaName := Some (d # ds)\<rparr>) u n) = d # ds"
    by (simp add: makeChannel_def orElse_def truthy_def)
  moreover have "chId (makeChannel (meta\<lparr>metaTvgId := None, metaName := None\<rparr>) u n)
     = ''channel-'' @ intToString (int n)"
    by (simp add: makeChannel_def orElse_def truthy_def)
  ultimately show ?thesis by blast
qed

theorem channel_id_priority_witness:
  "map chId (channels (parseM3U ''#EXTM3U\<newline>#EXTINF:-1 tvg-id=\"news1\" group-title=\"Info\",News HD\<newline>http://x/1\<newline>#EXTINF:-1,Plain\<newline>http://x/2''))
     = [''news1'', ''Plain''] \<and>
   map tvgId (channels (parseM3U ''#EXTM3U\<newline>#EXTINF:-1 tvg-id=\"news1\" group-title=\"Info\",News HD\<newline>http://x/1\<newline>#EXTINF:-1,Plain\<newline>http://x/2''))
     = [Some ''news1'', None] \<and>
   map name (channels (parseM3U ''#EXTM3U\<newline>#EXTINF:-1 tvg-id=\"news1\" group-title=\"Info\",News HD\<newline>http://x/1\<newline>#EXTINF:-1,Plain\<newline>http://x/2''))
     = [''News HD'', ''Plain'']"
  using channel_id_priority [of "''#EXTM3U\<newline>#EXTINF:-1 tvg-id=\"news1\" group-title=\"Info\",News HD\<newline>http://x/1\<newline>#EXTINF:-1,Plain\<newline>http://x/2''"]
  by (simp add: parseM3U_example)

lemma extinf_not_header:
  assumes "startsWith t ''#EXTINF:''"
  shows "t \<noteq> [] \<and> \<not> startsWith t ''#EXTM3U''"
proof -
  from assms have "take (length ''#EXTINF:'') t = ''#EXTINF:''"
    unfolding startsWith_def .
  with append_take_drop_id [of "length ''#EXTINF:''" t]
  obtain r where "t = ''#EXTINF:'' @ r" by metis
  then show ?thesis by (simp add: startsWith_def)
qed

lemma groups_parseLine:
  "groups (parseLine line st) =
     (if startsWith (trim line) ''#EXTINF:'' then
        (case matchAttr ''group-title'' (drop 8 (trim line)) of
           Some g \<Rightarrow> setAdd g (groups st) | None \<Rightarrow> groups st)
      else groups st)"
  using extinf_not_header [of "trim line"]
  by (auto simp: parseLine_def Let_def parseExtinf_def split: option.splits)

lemma set_setAdd: "set (setAdd g gs) = insert g (set gs)"
  by (auto simp: setAdd_def)

lemma distinct_setAdd: "distinct gs \<Longrightarrow> distinct (setAdd g gs)"
  by (auto simp: setAdd_def)

lemma set_groups_fold:
  "set (groups (fold parseLine ls st)) =
     set (groups st) \<union>
     set (List.map_filter
       (\<lambda>line. if startsWith (trim line) ''#EXTINF:''
               then matchAttr ''group-title'' (drop 8 (trim line)) else None) ls)"
proof (induction ls arbitrary: st)
  case Nil
  then show ?case by (simp add: map_filter_simps)
next
  case (Cons l ls)
  show ?case
    by (simp add: Cons.IH groups_parseLine map_filter_simps set_setAdd split: option.splits)
qed

lemma distinct_groups_fold:
  "distinct (groups st) \<Longrightarrow> distinct (groups (fold parseLine ls st))"
proof (induction ls arbitrary: st)
  case Nil
  then show ?case by simp
next
  case (Cons l ls)
  from Cons.prems have "distinct (groups (parseLine l st))"
    by (simp add: groups_parseLine distinct_setAdd split: option.splits)
  from Cons.IH [OF this] show ?case by simp
qed

lemma sorted_distinct_groups:
  "set (groups (parseM3U m)) = set (groupTitleValues m) \<and>
   sorted (groups (parseM3U m)) \<and> distinct (groups (parseM3U m))"
  using set_groups_fold [of "splitLines m" initialState]
    distinct_groups_fold [of initialState "splitLines m"]
  by (simp add: parseM3U_def Let_def groupTitleValues_def initialState_def)

lemma parseM3U_default_example:
  "parseM3U ''#EXTINF:-1,Plain\<newline>http://x/2''
   = \<lparr>tvgUrl = None,
      channels = [\<lparr>chId = ''Plain'', name = ''Plain'', group = ''Default'', url = ''http://x/2'',
                   logo = None, tvgId = None, tvgName = None, catchup = None,
                   catchupSource = None\<rparr>],
      groups = []\<rparr>"
  by code_simp

text \<open>
  C10. The \<open>groups\<close> array that \<open>parseM3U\<close> returns is the sorted list, without
  repetition, of the \<open>group-title\<close> values of the metadata lines of the input. The
  sentinel "Default" is in it only when a line carries it as a \<open>group-title\<close> value:
  a channel without the attribute gets the group "Default" and adds nothing, so the
  group of an emitted channel can be missing from \<open>groups\<close>, as for the playlist of one
  channel with no attribute.
\<close>

theorem groups_are_group_titles:
  "groups (parseM3U m3uContent) = sort (remdups (groupTitleValues m3uContent)) \<and>
   (''Default'' \<in> set (groups (parseM3U m3uContent))) =
     (''Default'' \<in> set (groupTitleValues m3uContent)) \<and>
   map group (channels (parseM3U ''#EXTINF:-1,Plain\<newline>http://x/2'')) = [''Default''] \<and>
   groups (parseM3U ''#EXTINF:-1,Plain\<newline>http://x/2'') = []"
proof -
  have "groups (parseM3U m3uContent) = sort (remdups (groupTitleValues m3uContent))"
    by (rule sorted_distinct_set_unique) (simp_all add: sorted_distinct_groups)
  then show ?thesis
    by (simp add: parseM3U_default_example)
qed

theorem groups_are_group_titles_witness:
  "groups (parseM3U ''#EXTM3U\<newline>#EXTINF:-1 tvg-id=\"news1\" group-title=\"Info\",News HD\<newline>http://x/1\<newline>#EXTINF:-1,Plain\<newline>http://x/2'')
     = [''Info''] \<and>
   sort (remdups (groupTitleValues ''#EXTM3U\<newline>#EXTINF:-1 tvg-id=\"news1\" group-title=\"Info\",News HD\<newline>http://x/1\<newline>#EXTINF:-1,Plain\<newline>http://x/2''))
     = [''Info''] \<and>
   map group (channels (parseM3U ''#EXTM3U\<newline>#EXTINF:-1 tvg-id=\"news1\" group-title=\"Info\",News HD\<newline>http://x/1\<newline>#EXTINF:-1,Plain\<newline>http://x/2''))
     = [''Info'', ''Default'']"
  using groups_are_group_titles [of "''#EXTM3U\<newline>#EXTINF:-1 tvg-id=\"news1\" group-title=\"Info\",News HD\<newline>http://x/1\<newline>#EXTINF:-1,Plain\<newline>http://x/2''"]
  by (simp add: parseM3U_example)

end
